theory Spec2Isabelle
  imports Main "HOL-Library.Word" "HOL-Library.Multiset" "HOL-Library.Char_ord"
    "HOL-Library.List_Lexorder"
begin

section \<open>blobfs: a synchronizing, content-addressed filesystem\<close>

text \<open>
  A shallow embedding of \<^verbatim>\<open>cmd/blobfs-mount/blobfs-mount.go\<close> and
  \<^verbatim>\<open>pkg/cache/cache.go\<close>. Go methods that mutate their receiver take the state
  and return it updated, next to their result. A Go \<^verbatim>\<open>error\<close> return is
  \<open>Inl e\<close>; a run-time panic (nil dereference, failed type assertion, slice bounds) is
  \<open>Inl (Panic msg)\<close>: the call does not return to its caller. Where the model bounds
  a recursion over the tree by a number of nested calls given as an argument, reaching
  the bound is \<open>Inl OutOfFuel\<close> and says nothing about the program.
\<close>

datatype error =
    EPERM | EFBIG | EEXIST | ENOENT | EIO | ErrNoXattr
  | ErrBlobNotFound | ErrKeyNotFound | ErrNotFound | ErrVersionConflict
  | Err string
  | Panic string
  | OutOfFuel

type_synonym bytes = string

subsection \<open>Content Store: \<^verbatim>\<open>pkg/cache/cache.go\<close>\<close>

text \<open>
  Modelled from the spec: the two blob backends (\<^verbatim>\<open>blobsfile.BlobsFileBackend\<close>,
  the local tier, and \<^verbatim>\<open>blobstore.BlobStore\<close>, the remote tier) are external
  packages. Sections 2 and 6 describe each as content-addressed byte storage keyed by hash
  with an existence check, whose operations may fail. A tier is the map of its blobs and,
  for each operation, the error it currently fails with (if any).
\<close>

record Tier =
  blobs :: "string \<rightharpoonup> bytes"
  get_fault :: "error option"
  put_fault :: "error option"
  stat_fault :: "error option"

definition tier_Get :: "Tier \<Rightarrow> string \<Rightarrow> error + bytes" where
  "tier_Get t hash =
     (case get_fault t of
        Some e \<Rightarrow> Inl e
      | None \<Rightarrow> (case blobs t hash of None \<Rightarrow> Inl ErrBlobNotFound | Some blob \<Rightarrow> Inr blob))"

definition tier_Put :: "Tier \<Rightarrow> string \<Rightarrow> bytes \<Rightarrow> error + Tier" where
  "tier_Put t hash blob =
     (case put_fault t of
        Some e \<Rightarrow> Inl e
      | None \<Rightarrow> Inr (t\<lparr>blobs := (blobs t)(hash \<mapsto> blob)\<rparr>))"

definition tier_Stat :: "Tier \<Rightarrow> string \<Rightarrow> error + bool" where
  "tier_Stat t hash =
     (case stat_fault t of
        Some e \<Rightarrow> Inl e
      | None \<Rightarrow> Inr (blobs t hash \<noteq> None))"

text \<open>\<^verbatim>\<open>type Cache struct\<close>: \<open>backend\<close> is the local tier, \<open>bs\<close> the remote one.\<close>

record Cache =
  backend :: Tier
  bs :: Tier

definition Cache_PutRemote :: "Cache \<Rightarrow> string \<Rightarrow> bytes \<Rightarrow> (error + unit) \<times> Cache" where
  "Cache_PutRemote c hash blob =
     (case tier_Put (bs c) hash blob of
        Inl e \<Rightarrow> (Inl e, c)
      | Inr t \<Rightarrow> (Inr (), c\<lparr>bs := t\<rparr>))"

definition Cache_Put :: "Cache \<Rightarrow> string \<Rightarrow> bytes \<Rightarrow> (error + unit) \<times> Cache" where
  "Cache_Put c hash blob =
     (case tier_Put (backend c) hash blob of
        Inl e \<Rightarrow> (Inl e, c)
      | Inr t \<Rightarrow> (Inr (), c\<lparr>backend := t\<rparr>))"

definition Cache_StatRemote :: "Cache \<Rightarrow> string \<Rightarrow> error + bool" where
  "Cache_StatRemote c hash = tier_Stat (bs c) hash"

definition Cache_Stat :: "Cache \<Rightarrow> string \<Rightarrow> error + bool" where
  "Cache_Stat c hash =
     (case tier_Stat (backend c) hash of
        Inl err \<Rightarrow> Inl err
      | Inr exists \<Rightarrow> if \<not> exists then tier_Stat (bs c) hash else Inr exists)"

definition Cache_Get :: "Cache \<Rightarrow> string \<Rightarrow> (error + bytes) \<times> Cache" where
  "Cache_Get c hash =
     (case tier_Get (backend c) hash of
        Inl ErrBlobNotFound \<Rightarrow>
          (case tier_Get (bs c) hash of
             Inl err \<Rightarrow> (Inl err, c)
           | Inr blob \<Rightarrow>
               (case tier_Put (backend c) hash blob of
                  Inl err \<Rightarrow> (Inl err, c)
                | Inr t \<Rightarrow> (Inr blob, c\<lparr>backend := t\<rparr>)))
      | Inr blob \<Rightarrow> (Inr blob, c)
      | Inl err \<Rightarrow> (Inl err, c))"

subsection \<open>Roots and mounts\<close>

text \<open>
  Modelled from the spec: \<^verbatim>\<open>pkg/root\<close> is not among the sources. Section 3 gives
  a Root as the content hash of the root Dir, a version number and an optional comment.
\<close>

record Root =
  Ref :: string
  Version :: int
  Comment :: string

type_synonym addr = nat

text \<open>
  \<^verbatim>\<open>type Mount struct\<close>. \<open>mnt_node\<close> is the address of the mount's \<^verbatim>\<open>*Dir\<close>
  (\<open>None\<close> for a nil pointer), \<open>mnt_root\<close> the \<^verbatim>\<open>*root.Root\<close> (\<open>None\<close> for nil).
\<close>

record Mount =
  mnt_immutable :: bool
  mnt_node :: "addr option"
  mnt_root :: "Root option"

text \<open>
  \<^verbatim>\<open>FS.Mount\<close> reads only \<open>f.local\<close> and \<open>f.remote\<close>; it is given the two
  fields. Reading \<open>root.Version\<close> through a nil \<open>root\<close> panics.
\<close>

definition FS_Mount :: "Mount option \<Rightarrow> Mount option \<Rightarrow> error + Mount option" where
  "FS_Mount loc rem =
     (case loc of
        Some l \<Rightarrow>
          (case rem of
             None \<Rightarrow> Inr loc
           | Some r \<Rightarrow>
               (case (mnt_root l, mnt_root r) of
                  (Some lr, Some rr) \<Rightarrow> if Version lr > Version rr then Inr loc else Inr rem
                | _ \<Rightarrow> Inl (Panic ''nil pointer dereference'')))
      | None \<Rightarrow> Inr rem)"

subsection \<open>Versioned key-value stores\<close>

text \<open>
  Modelled from the spec: \<^verbatim>\<open>vkv.DB\<close> (local) and \<^verbatim>\<open>kvstore.KvStore\<close> (remote)
  are external packages. Section 6 gives an append-only, per-key version history with
  \<open>get(key, -1)\<close> for the latest record, \<open>put\<close> returning the new version (Section 4.2:
  version \<open>-1\<close> asks for auto-increment) and rejecting a stale version with
  \<open>VersionConflict\<close>, and \<open>listVersions\<close> in increasing order.
\<close>

record KeyValue =
  kv_Hash :: string
  kv_Data :: bytes
  kv_Version :: int

record VKV =
  entries :: "string \<Rightarrow> KeyValue list"
  kv_fault :: "error option"

definition latest_version :: "KeyValue list \<Rightarrow> int" where
  "latest_version kvs = (if kvs = [] then 0 else kv_Version (last kvs))"

definition vkv_Get :: "error \<Rightarrow> VKV \<Rightarrow> string \<Rightarrow> error + KeyValue" where
  "vkv_Get notfound db key =
     (case kv_fault db of
        Some e \<Rightarrow> Inl e
      | None \<Rightarrow> if entries db key = [] then Inl notfound else Inr (last (entries db key)))"

definition vkv_Put :: "VKV \<Rightarrow> string \<Rightarrow> string \<Rightarrow> bytes \<Rightarrow> int \<Rightarrow> error + KeyValue \<times> VKV" where
  "vkv_Put db key ref data version =
     (case kv_fault db of
        Some e \<Rightarrow> Inl e
      | None \<Rightarrow>
          if version \<noteq> -1 \<and> version \<le> latest_version (entries db key)
          then Inl ErrVersionConflict
          else
            let kv = \<lparr>kv_Hash = ref, kv_Data = data,
                      kv_Version = (if version = -1 then latest_version (entries db key) + 1
                                    else version)\<rparr>
            in Inr (kv, db\<lparr>entries := (entries db)(key := entries db key @ [kv])\<rparr>))"

definition vkv_Versions :: "VKV \<Rightarrow> string \<Rightarrow> error + KeyValue list" where
  "vkv_Versions db key =
     (case kv_fault db of
        Some e \<Rightarrow> Inl e
      | None \<Rightarrow> if entries db key = [] then Inl ErrKeyNotFound else Inr (entries db key))"

definition rootKey :: "string \<Rightarrow> string" where
  "rootKey name = ''blobfs:root:'' @ name"

definition localRootKey :: "string \<Rightarrow> string" where
  "localRootKey name = ''local:root:'' @ name"

subsection \<open>Nodes\<close>

text \<open>
  \<^verbatim>\<open>meta.Meta\<close> is declared in an external package; the fields are those the source
  reads and writes. \<open>Refs\<close> is a \<^verbatim>\<open>[]interface{}\<close>: a directory holds the hashes of
  its children as strings, a file holds \<open>[index, hash]\<close> pairs. \<open>XAttrs\<close> is \<open>None\<close>
  for a nil map.
\<close>

datatype iref = HashRef string | ChunkRef int string

record Meta =
  Name :: string
  Type :: string
  Size :: int
  Mode :: "32 word"
  ModTime :: string
  Refs :: "iref list"
  XAttrs :: "(string \<rightharpoonup> string) option"
  Hash :: string

text \<open>
  The methods of \<open>Meta\<close> the source calls, as it relies on them: \<^verbatim>\<open>IsDir\<close> tests the
  type, \<^verbatim>\<open>IsPublic\<close> the reserved attribute \<open>public\<close>, \<^verbatim>\<open>AddRef\<close> appends a
  reference.
\<close>

definition Meta_IsDir :: "Meta \<Rightarrow> bool" where
  "Meta_IsDir m = (Type m = ''dir'')"

definition Meta_IsPublic :: "Meta \<Rightarrow> bool" where
  "Meta_IsPublic m = (case XAttrs m of None \<Rightarrow> False | Some xs \<Rightarrow> xs ''public'' = Some ''1'')"

definition AddRef :: "Meta \<Rightarrow> string \<Rightarrow> Meta" where
  "AddRef m ref = m\<lparr>Refs := Refs m @ [HashRef ref]\<rparr>"

text \<open>
  \<^verbatim>\<open>type Dir struct\<close> and \<^verbatim>\<open>type File struct\<close>. Pointers to nodes are addresses
  into the heap of the filesystem. \<open>Children\<close> is \<open>None\<close> for a nil map; a map is the
  list of its entries, with distinct keys, in the order a \<^verbatim>\<open>range\<close> loop visits them
  (Go leaves that order unspecified). \<open>fdata\<close> is \<open>None\<close> for a nil slice. A node
  holds its \<open>Meta\<close> by value.
\<close>

record Dir =
  dmeta :: Meta
  dparent :: "addr option"
  Children :: "(string \<times> addr) list option"

record File =
  fdata :: "bytes option"
  fmeta :: Meta
  FakeFile :: bool
  fparent :: "addr option"
  updated :: bool
  openCount :: int

datatype Node = DirNode Dir | FileNode File

fun node_Meta :: "Node \<Rightarrow> Meta" where
  "node_Meta (DirNode d) = dmeta d"
| "node_Meta (FileNode f) = fmeta f"

fun node_IsDir :: "Node \<Rightarrow> bool" where
  "node_IsDir (DirNode d) = True"
| "node_IsDir (FileNode f) = False"

fun map_set :: "'k \<Rightarrow> 'v \<Rightarrow> ('k \<times> 'v) list \<Rightarrow> ('k \<times> 'v) list" where
  "map_set k v [] = [(k, v)]"
| "map_set k v ((k', v') # kvs) = (if k = k' then (k, v) # kvs else (k', v') # map_set k v kvs)"

definition map_delete :: "'k \<Rightarrow> ('k \<times> 'v) list \<Rightarrow> ('k \<times> 'v) list" where
  "map_delete k kvs = filter (\<lambda>kv. fst kv \<noteq> k) kvs"

subsection \<open>The filesystem state\<close>

text \<open>
  The functions of external packages that the source calls and that have no state of
  their own: the node encoder and hasher (\<^verbatim>\<open>meta.NewMeta\<close>, \<^verbatim>\<open>Meta.Json\<close>,
  \<^verbatim>\<open>meta.NewMetaFromBlob\<close>), the Root codec (\<^verbatim>\<open>json.Marshal\<close> of a Root,
  \<^verbatim>\<open>Root.JSON\<close>, \<^verbatim>\<open>root.NewFromJSON\<close>) and \<^verbatim>\<open>time.Format\<close>. They are
  parameters of the model.
\<close>

record ext =
  NewMeta :: Meta
  Json :: "Meta \<Rightarrow> string \<times> bytes"
  NewMetaFromBlob :: "string \<Rightarrow> bytes \<Rightarrow> error + Meta"
  json_Marshal :: "Root \<Rightarrow> error + bytes"
  Root_JSON :: "Root \<Rightarrow> error + bytes"
  NewFromJSON :: "bytes \<Rightarrow> int \<Rightarrow> error + Root"
  Format_RFC3339 :: "nat \<Rightarrow> string"

record Stats =
  FilesCreated :: int
  DirsCreated :: int
  stats_updated :: bool

text \<open>
  \<^verbatim>\<open>type FS struct\<close>, with the heap of nodes, the global \<^verbatim>\<open>stats\<close> and the number
  of signals sent on the \<^verbatim>\<open>sync\<close> channel. \<open>remote_index\<close> is what the remote
  answers to \<^verbatim>\<open>GET /api/filetree/index/<ref>\<close>.
\<close>

record FS =
  heap :: "Node list"
  root :: "addr option"
  rkv :: VKV
  lkv :: VKV
  fs_bs :: Cache
  name :: string
  immutable :: bool
  lastOP :: nat
  local :: "Mount option"
  remote :: "Mount option"
  cache :: "nat list"
  openFds :: int
  stats :: Stats
  sync_sent :: nat
  remote_index :: "string \<Rightarrow> error + (string \<times> string) list"

definition deref :: "FS \<Rightarrow> addr \<Rightarrow> Node option" where
  "deref fs a = (if a < length (heap fs) then Some (heap fs ! a) else None)"

definition dir_at :: "FS \<Rightarrow> addr \<Rightarrow> Dir option" where
  "dir_at fs a = (case deref fs a of Some (DirNode d) \<Rightarrow> Some d | _ \<Rightarrow> None)"

definition file_at :: "FS \<Rightarrow> addr \<Rightarrow> File option" where
  "file_at fs a = (case deref fs a of Some (FileNode f) \<Rightarrow> Some f | _ \<Rightarrow> None)"

definition set_node :: "FS \<Rightarrow> addr \<Rightarrow> Node \<Rightarrow> FS" where
  "set_node fs a n = fs\<lparr>heap := (heap fs)[a := n]\<rparr>"

definition alloc :: "FS \<Rightarrow> Node \<Rightarrow> addr \<times> FS" where
  "alloc fs n = (length (heap fs), fs\<lparr>heap := heap fs @ [n]\<rparr>)"

definition updateLastOP :: "nat \<Rightarrow> FS \<Rightarrow> FS" where
  "updateLastOP now fs = fs\<lparr>lastOP := now\<rparr>"

definition Immutable :: "FS \<Rightarrow> bool" where
  "Immutable fs = immutable fs"

definition NewDir :: "FS \<Rightarrow> Meta \<Rightarrow> addr option \<Rightarrow> addr \<times> FS" where
  "NewDir fs m parent = alloc fs (DirNode \<lparr>dmeta = m, dparent = parent, Children = None\<rparr>)"

definition NewFile :: "FS \<Rightarrow> Meta \<Rightarrow> addr option \<Rightarrow> addr \<times> FS" where
  "NewFile fs m parent =
     alloc fs (FileNode \<lparr>fdata = None, fmeta = m, FakeFile = False, fparent = parent,
                         updated = False, openCount = 0\<rparr>)"

text \<open>
  \<^verbatim>\<open>FS.Mount\<close> on the state, and the \<^verbatim>\<open>f.Mount().node.(*Dir)\<close> that follows it in
  the source: a nil mount panics.
\<close>

definition Mount_node :: "FS \<Rightarrow> error + addr option" where
  "Mount_node fs =
     (case FS_Mount (local fs) (remote fs) of
        Inl e \<Rightarrow> Inl e
      | Inr None \<Rightarrow> Inl (Panic ''nil pointer dereference'')
      | Inr (Some m) \<Rightarrow> Inr (mnt_node m))"

definition InvalidateCache :: "FS \<Rightarrow> FS" where
  "InvalidateCache fs = fs\<lparr>cache := []\<rparr>"

subsection \<open>\<^verbatim>\<open>Dir.reload\<close>\<close>

text \<open>The loop of \<^verbatim>\<open>Dir.reload\<close> over \<open>d.meta.Refs\<close>, then the method.\<close>

fun reload_refs :: "ext \<Rightarrow> addr \<Rightarrow> iref list \<Rightarrow> FS \<Rightarrow> (error + unit) \<times> FS" where
  "reload_refs x d [] fs = (Inr (), fs)"
| "reload_refs x d (ChunkRef i h # refs) fs = (Inl (Panic ''interface conversion''), fs)"
| "reload_refs x d (HashRef ref # refs) fs =
     (case Cache_Get (fs_bs fs) ref of
        (Inl err, c) \<Rightarrow> (Inl err, fs\<lparr>fs_bs := c\<rparr>)
      | (Inr blob, c) \<Rightarrow>
          (case NewMetaFromBlob x ref blob of
             Inl err \<Rightarrow> (Inl err, fs\<lparr>fs_bs := c\<rparr>)
           | Inr m \<Rightarrow>
               let (n, fs1) = (if Meta_IsDir m then NewDir (fs\<lparr>fs_bs := c\<rparr>) m (Some d)
                               else NewFile (fs\<lparr>fs_bs := c\<rparr>) m (Some d))
               in (case dir_at fs1 d of
                     None \<Rightarrow> (Inl (Panic ''nil pointer dereference''), fs1)
                   | Some dir \<Rightarrow>
                       reload_refs x d refs
                         (set_node fs1 d
                            (DirNode (dir\<lparr>Children :=
                               Some (map_set (Name m) n (case Children dir of None \<Rightarrow> [] | Some cs \<Rightarrow> cs))\<rparr>))))))"

definition reload :: "ext \<Rightarrow> FS \<Rightarrow> addr \<Rightarrow> (error + unit) \<times> FS" where
  "reload x fs d =
     (case dir_at fs d of
        None \<Rightarrow> (Inl (Panic ''nil pointer dereference''), fs)
      | Some dir \<Rightarrow>
          reload_refs x d (Refs (dmeta dir)) (set_node fs d (DirNode (dir\<lparr>Children := Some []\<rparr>))))"

text \<open>\<^verbatim>\<open>if d.Children == nil { if err := d.reload(); err != nil { return err } }\<close>\<close>

definition ensure_loaded :: "ext \<Rightarrow> FS \<Rightarrow> addr \<Rightarrow> (error + unit) \<times> FS" where
  "ensure_loaded x fs d =
     (case dir_at fs d of
        None \<Rightarrow> (Inl (Panic ''nil pointer dereference''), fs)
      | Some dir \<Rightarrow> if Children dir = None then reload x fs d else (Inr (), fs))"

subsection \<open>\<^verbatim>\<open>Dir.Save\<close>\<close>

text \<open>
  The loop of \<^verbatim>\<open>Dir.Save\<close> over \<open>d.Children\<close>: one \<^verbatim>\<open>AddRef\<close> with the child's
  current hash for each child, in the order of the iteration.
\<close>

fun add_child_refs :: "FS \<Rightarrow> (string \<times> addr) list \<Rightarrow> Meta \<Rightarrow> error + Meta" where
  "add_child_refs fs [] m = Inr m"
| "add_child_refs fs ((k, c) # cs) m =
     (case deref fs c of
        None \<Rightarrow> Inl (Panic ''nil pointer dereference'')
      | Some node \<Rightarrow> add_child_refs fs cs (AddRef m (Hash (node_Meta node))))"

text \<open>
  Lines 1962 to 1988: the fresh \<open>Meta\<close> of the directory, from its name, its modification
  time (the current time if unset) and its children, with the hash \<^verbatim>\<open>Json\<close> computes.
  The result is the new \<open>d.meta\<close> and the encoding.
\<close>

definition dir_mode :: "32 word" where
  "dir_mode = or (push_bit 31 1) 365"

definition Save_meta :: "ext \<Rightarrow> nat \<Rightarrow> FS \<Rightarrow> Dir \<Rightarrow> error + Meta \<times> bytes" where
  "Save_meta x now fs dir =
     (case add_child_refs fs (case Children dir of None \<Rightarrow> [] | Some cs \<Rightarrow> cs)
             ((NewMeta x)\<lparr>Name := Name (dmeta dir), Type := ''dir'', Mode := dir_mode,
                ModTime := (if ModTime (dmeta dir) \<noteq> '''' then ModTime (dmeta dir)
                            else Format_RFC3339 x now)\<rparr>) of
        Inl e \<Rightarrow> Inl e
      | Inr m \<Rightarrow> Inr (m\<lparr>Hash := fst (Json x m)\<rparr>, snd (Json x m)))"

text \<open>
  Lines 2003 to 2032, the root case: commit a Root to the local WIP track, make it the
  local Mount, and copy the directory over \<open>*d.fs.root\<close>. (In Go the copy shares
  the child map of \<open>d\<close>; here it is a copy of the list. The two differ only when
  \<open>d\<close> is not the directory \<open>f.root\<close> points to.)
\<close>

definition Save_root :: "ext \<Rightarrow> FS \<Rightarrow> addr \<Rightarrow> string \<Rightarrow> (error + unit) \<times> FS" where
  "Save_root x fs d mhash =
     (case json_Marshal x \<lparr>Ref = mhash, Version = 0, Comment = ''''\<rparr> of
        Inl err \<Rightarrow> (Inl err, fs)
      | Inr js \<Rightarrow>
          (case vkv_Put (lkv fs) (localRootKey (name fs)) '''' js (-1) of
             Inl err \<Rightarrow> (Inl err, fs)
           | Inr (kv, db) \<Rightarrow>
               let fs1 = fs\<lparr>lkv := db,
                            local := Some \<lparr>mnt_immutable = False, mnt_node = Some d,
                                mnt_root = Some \<lparr>Ref = mhash, Version = kv_Version kv,
                                                  Comment = ''''\<rparr>\<rparr>\<rparr>
               in (case (root fs1, deref fs1 d) of
                     (Some r, Some node) \<Rightarrow> (Inr (), set_node fs1 r node)
                   | _ \<Rightarrow> (Inr (), fs1))))"

text \<open>
  Lines 1962 to 2001: set \<open>d.meta\<close> to the fresh \<open>Meta\<close> and write its encoding to the
  Content Store unless \<^verbatim>\<open>Stat\<close> finds it. The result is the directory as saved.
\<close>

definition Save_node :: "ext \<Rightarrow> nat \<Rightarrow> FS \<Rightarrow> addr \<Rightarrow> (error + Dir) \<times> FS" where
  "Save_node x now fs d =
     (case dir_at fs d of
        None \<Rightarrow> (Inl (Panic ''nil pointer dereference''), fs)
      | Some dir \<Rightarrow>
          (case Save_meta x now fs dir of
             Inl e \<Rightarrow> (Inl e, fs)
           | Inr (m, mjs) \<Rightarrow>
               let fs1 = set_node fs d (DirNode (dir\<lparr>dmeta := m\<rparr>)) in
               (case Cache_Stat (fs_bs fs1) (Hash m) of
                  Inl err \<Rightarrow> (Inl err, fs1)
                | Inr mexists \<Rightarrow>
                    if \<not> mexists
                    then (case Cache_Put (fs_bs fs1) (Hash m) mjs of
                            (Inl err, c) \<Rightarrow> (Inl err, fs1\<lparr>fs_bs := c\<rparr>)
                          | (Inr u, c) \<Rightarrow> (Inr (dir\<lparr>dmeta := m\<rparr>), fs1\<lparr>fs_bs := c\<rparr>))
                    else (Inr (dir\<lparr>dmeta := m\<rparr>), fs1))))"

text \<open>
  \<^verbatim>\<open>Dir.Save\<close> calls itself on the parent. The recursion is bounded by a count of
  calls; \<open>Dir_Save\<close> starts it at one more than the number of nodes, which only a cycle
  of parent pointers exhausts (the Go program then never returns).
\<close>

fun Save_rec :: "nat \<Rightarrow> ext \<Rightarrow> nat \<Rightarrow> FS \<Rightarrow> addr \<Rightarrow> (error + unit) \<times> FS" where
  "Save_rec 0 x now fs d = (Inl (Panic ''stack overflow''), fs)"
| "Save_rec (Suc n) x now fs d =
     (case Save_node x now fs d of
        (Inl e, fs1) \<Rightarrow> (Inl e, fs1)
      | (Inr dir, fs1) \<Rightarrow>
          (case dparent dir of
             None \<Rightarrow> Save_root x fs1 d (Hash (dmeta dir))
           | Some p \<Rightarrow> Save_rec n x now fs1 p))"

definition Dir_Save :: "ext \<Rightarrow> nat \<Rightarrow> FS \<Rightarrow> addr \<Rightarrow> (error + unit) \<times> FS" where
  "Dir_Save x now fs d = Save_rec (Suc (length (heap fs))) x now fs d"

definition File_Save :: "ext \<Rightarrow> nat \<Rightarrow> FS \<Rightarrow> addr \<Rightarrow> (error + unit) \<times> FS" where
  "File_Save x now fs f =
     (if Immutable fs then (Inr (), fs)
      else (case file_at fs f of
              None \<Rightarrow> (Inl (Panic ''nil pointer dereference''), fs)
            | Some file \<Rightarrow>
                (case fparent file of
                   None \<Rightarrow> (Inl (Panic ''nil pointer dereference''), fs)
                 | Some p \<Rightarrow> Dir_Save x now fs p)))"

subsection \<open>\<^verbatim>\<open>File.Write\<close>\<close>

text \<open>
  \<^verbatim>\<open>maxInt = int(^uint(0) >> 1)\<close>, for a platform whose \<^verbatim>\<open>uint\<close> has \<open>w\<close> bits.
\<close>

definition maxInt :: "nat \<Rightarrow> int" where
  "maxInt w = (2 ^ w - 1) div 2"

text \<open>
  The built-in \<^verbatim>\<open>copy(dst, src)\<close>: the number of bytes copied, the shorter of the
  two lengths, and \<open>dst\<close> afterwards.
\<close>

definition go_copy :: "bytes \<Rightarrow> bytes \<Rightarrow> nat \<times> bytes" where
  "go_copy dst src =
     (min (length dst) (length src),
      take (min (length dst) (length src)) src @ drop (min (length dst) (length src)) dst)"

record WriteRequest =
  Offset :: "64 word"
  Data :: bytes

text \<open>
  \<^verbatim>\<open>File.Write\<close>. \<open>req.Offset\<close> is an \<^verbatim>\<open>int64\<close>, and so is \<open>newLen\<close>: the sum
  wraps. The slice expression \<^verbatim>\<open>f.data[req.Offset:]\<close> panics unless
  \<open>0 \<le> req.Offset \<le> len(f.data)\<close>. The result is \<open>resp.Size\<close>.
\<close>

definition File_Write :: "nat \<Rightarrow> nat \<Rightarrow> FS \<Rightarrow> addr \<Rightarrow> WriteRequest \<Rightarrow> (error + int) \<times> FS" where
  "File_Write w now fs0 f req =
     (let fs = updateLastOP now fs0 in
      if Immutable fs then (Inl EPERM, fs)
      else
        (case file_at fs f of
           None \<Rightarrow> (Inl (Panic ''nil pointer dereference''), fs)
         | Some file \<Rightarrow>
             let fs1 = set_node fs f (FileNode (file\<lparr>updated := True\<rparr>));
                 newLen = Offset req + of_nat (length (Data req));
                 buf = (case fdata file of None \<Rightarrow> [] | Some b \<Rightarrow> b)
             in
               if sint newLen > maxInt w then (Inl EFBIG, fs1)
               else if sint (Offset req) < 0 \<or> int (length buf) < sint (Offset req)
               then (Inl (Panic ''slice bounds out of range''), fs1)
               else
                 let off = nat (sint (Offset req));
                     (n, dst) = go_copy (drop off buf) (Data req);
                     buf1 = take off buf @ dst;
                     data1 = (if n < length (Data req) then Some (buf1 @ drop n (Data req))
                              else map_option (\<lambda>b. buf1) (fdata file))
                 in (Inr (int (length (Data req))),
                     set_node fs f (FileNode (file\<lparr>updated := True, fdata := data1\<rparr>)))))"

subsection \<open>Extended attributes\<close>

definition virtualXAttrs :: "string list" where
  "virtualXAttrs = [''ref'', ''url'']"

definition set_xattr :: "string \<Rightarrow> string \<Rightarrow> Meta \<Rightarrow> Meta" where
  "set_xattr k v m =
     m\<lparr>XAttrs := Some ((case XAttrs m of None \<Rightarrow> Map.empty | Some xs \<Rightarrow> xs)(k \<mapsto> v))\<rparr>"

definition File_Setxattr :: "ext \<Rightarrow> nat \<Rightarrow> FS \<Rightarrow> addr \<Rightarrow> string \<Rightarrow> string \<Rightarrow> (error + unit) \<times> FS" where
  "File_Setxattr x now fs0 f nm xattr =
     (let fs = updateLastOP now fs0 in
      if Immutable fs then (Inr (), fs)
      else if nm \<in> set virtualXAttrs then (Inr (), fs)
      else
        (case file_at fs f of
           None \<Rightarrow> (Inl (Panic ''nil pointer dereference''), fs)
         | Some file \<Rightarrow>
             (case File_Save x now
                     (set_node fs f (FileNode (file\<lparr>fmeta := set_xattr nm xattr (fmeta file)\<rparr>))) f of
                (Inl err, fs1) \<Rightarrow> (Inl err, fs1)
              | (Inr u, fs1) \<Rightarrow>
                  (Inr (), if nm = ''public'' then fs1\<lparr>sync_sent := sync_sent fs1 + 1\<rparr> else fs1))))"

text \<open>
  \<^verbatim>\<open>makePublic\<close>: the attribute on the node, then on each child of a directory, then
  \<^verbatim>\<open>node.Save()\<close>. Storing into a nil \<open>XAttrs\<close> map panics; deleting from it does
  nothing. The recursion over the tree is bounded by \<open>n\<close> nested calls.
\<close>

definition public_xattr :: "string \<Rightarrow> Meta \<Rightarrow> error + Meta" where
  "public_xattr v m =
     (if v = ''1''
      then (case XAttrs m of
              None \<Rightarrow> Inl (Panic ''assignment to entry in nil map'')
            | Some xs \<Rightarrow> Inr (m\<lparr>XAttrs := Some (xs(''public'' \<mapsto> v))\<rparr>))
      else Inr (m\<lparr>XAttrs := map_option (\<lambda>xs. xs(''public'' := None)) (XAttrs m)\<rparr>))"

fun makePublic :: "nat \<Rightarrow> ext \<Rightarrow> nat \<Rightarrow> FS \<Rightarrow> addr \<Rightarrow> string \<Rightarrow> (error + unit) \<times> FS"
  and makePublic_children ::
    "nat \<Rightarrow> ext \<Rightarrow> nat \<Rightarrow> FS \<Rightarrow> (string \<times> addr) list \<Rightarrow> string \<Rightarrow> (error + unit) \<times> FS" where
  "makePublic 0 x now fs a v = (Inl OutOfFuel, fs)"
| "makePublic (Suc n) x now fs a v =
     (case deref fs a of
        None \<Rightarrow> (Inl (Panic ''nil pointer dereference''), fs)
      | Some (FileNode file) \<Rightarrow>
          (case public_xattr v (fmeta file) of
             Inl e \<Rightarrow> (Inl e, fs)
           | Inr m \<Rightarrow> File_Save x now (set_node fs a (FileNode (file\<lparr>fmeta := m\<rparr>))) a)
      | Some (DirNode dir) \<Rightarrow>
          (case public_xattr v (dmeta dir) of
             Inl e \<Rightarrow> (Inl e, fs)
           | Inr m \<Rightarrow>
               (case makePublic_children n x now (set_node fs a (DirNode (dir\<lparr>dmeta := m\<rparr>)))
                       (case Children dir of None \<Rightarrow> [] | Some cs \<Rightarrow> cs) v of
                  (Inl err, fs1) \<Rightarrow> (Inl err, fs1)
                | (Inr u, fs1) \<Rightarrow> Dir_Save x now fs1 a)))"
| "makePublic_children n x now fs [] v = (Inr (), fs)"
| "makePublic_children n x now fs ((k, c) # cs) v =
     (case makePublic n x now fs c v of
        (Inl err, fs1) \<Rightarrow> (Inl err, fs1)
      | (Inr u, fs1) \<Rightarrow> makePublic_children n x now fs1 cs v)"

definition Dir_Setxattr ::
  "nat \<Rightarrow> ext \<Rightarrow> nat \<Rightarrow> FS \<Rightarrow> addr \<Rightarrow> string \<Rightarrow> string \<Rightarrow> (error + unit) \<times> FS" where
  "Dir_Setxattr n x now fs0 d nm xattr =
     (let fs = updateLastOP now fs0 in
      if nm = ''public'' then makePublic n x now fs d xattr
      else if nm \<in> set virtualXAttrs then (Inr (), fs)
      else
        (case dir_at fs d of
           None \<Rightarrow> (Inl (Panic ''nil pointer dereference''), fs)
         | Some dir \<Rightarrow>
             Dir_Save x now
               (set_node fs d (DirNode (dir\<lparr>dmeta := set_xattr nm xattr (dmeta dir)\<rparr>))) d))"

subsection \<open>\<^verbatim>\<open>Dir.Mkdir\<close>, \<^verbatim>\<open>Dir.Remove\<close>, \<^verbatim>\<open>Dir.Create\<close>\<close>

definition zero_Meta :: Meta where
  "zero_Meta = \<lparr>Name = '''', Type = '''', Size = 0, Mode = 0, ModTime = '''', Refs = [],
                 XAttrs = None, Hash = ''''\<rparr>"

definition children_of :: "FS \<Rightarrow> addr \<Rightarrow> (string \<times> addr) list" where
  "children_of fs d =
     (case dir_at fs d of
        Some dir \<Rightarrow> (case Children dir of None \<Rightarrow> [] | Some cs \<Rightarrow> cs)
      | None \<Rightarrow> [])"

text \<open>\<^verbatim>\<open>d.Children[k] = c\<close> and \<^verbatim>\<open>delete(d.Children, k)\<close> on the directory at \<open>d\<close>.\<close>

definition set_child :: "FS \<Rightarrow> addr \<Rightarrow> string \<Rightarrow> addr \<Rightarrow> FS" where
  "set_child fs d k c =
     (case dir_at fs d of
        None \<Rightarrow> fs
      | Some dir \<Rightarrow>
          set_node fs d (DirNode (dir\<lparr>Children := Some (map_set k c (children_of fs d))\<rparr>)))"

definition delete_child :: "FS \<Rightarrow> addr \<Rightarrow> string \<Rightarrow> FS" where
  "delete_child fs d k =
     (case dir_at fs d of
        None \<Rightarrow> fs
      | Some dir \<Rightarrow>
          set_node fs d (DirNode (dir\<lparr>Children := map_option (map_delete k) (Children dir)\<rparr>)))"

definition Dir_Mkdir :: "ext \<Rightarrow> nat \<Rightarrow> FS \<Rightarrow> addr \<Rightarrow> string \<Rightarrow> (error + addr) \<times> FS" where
  "Dir_Mkdir x now fs0 d nm =
     (let fs = updateLastOP now fs0 in
      if Immutable fs then (Inl EPERM, fs)
      else
        (case ensure_loaded x fs d of
           (Inl err, fs1) \<Rightarrow> (Inl err, fs1)
         | (Inr u, fs1) \<Rightarrow>
             if map_of (children_of fs1 d) nm \<noteq> None then (Inl EEXIST, fs1)
             else
               let (newdir, fs2) =
                     alloc fs1 (DirNode \<lparr>dmeta = zero_Meta\<lparr>Name := nm\<rparr>, dparent = Some d,
                                          Children = Some []\<rparr>)
               in (case Dir_Save x now fs2 newdir of
                     (Inl err, fs3) \<Rightarrow> (Inl err, fs3)
                   | (Inr u, fs3) \<Rightarrow>
                       (case Dir_Save x now (set_child fs3 d nm newdir) d of
                          (Inl err, fs4) \<Rightarrow> (Inl err, fs4)
                        | (Inr u, fs4) \<Rightarrow>
                            (Inr newdir,
                             fs4\<lparr>stats := (stats fs4)\<lparr>stats_updated := True,
                                      DirsCreated := DirsCreated (stats fs4) + 1\<rparr>\<rparr>)))))"

definition Dir_Remove :: "ext \<Rightarrow> nat \<Rightarrow> FS \<Rightarrow> addr \<Rightarrow> string \<Rightarrow> (error + unit) \<times> FS" where
  "Dir_Remove x now fs0 d nm =
     (let fs = updateLastOP now fs0 in
      if Immutable fs then (Inl EPERM, fs)
      else
        (case ensure_loaded x fs d of
           (Inl err, fs1) \<Rightarrow> (Inl err, fs1)
         | (Inr u, fs1) \<Rightarrow> Dir_Save x now (delete_child fs1 d nm) d))"

definition Dir_Create ::
  "ext \<Rightarrow> nat \<Rightarrow> FS \<Rightarrow> addr \<Rightarrow> string \<Rightarrow> 32 word \<Rightarrow> (error + addr) \<times> FS" where
  "Dir_Create x now fs0 d nm mode =
     (let fs = updateLastOP now fs0 in
      if Immutable fs then (Inl EPERM, fs)
      else
        (case ensure_loaded x fs d of
           (Inl err, fs1) \<Rightarrow> (Inl err, fs1)
         | (Inr u, fs1) \<Rightarrow>
             (case dir_at fs1 d of
                None \<Rightarrow> (Inl (Panic ''nil pointer dereference''), fs1)
              | Some dir \<Rightarrow>
                  let m0 = (NewMeta x)\<lparr>Type := ''file'', Name := nm, Mode := mode,
                              ModTime := Format_RFC3339 x now\<rparr>;
                      m1 = (if Meta_IsPublic (dmeta dir)
                            then m0\<lparr>XAttrs := Some [''public'' \<mapsto> ''1'']\<rparr> else m0);
                      m = m1\<lparr>Hash := fst (Json x m1)\<rparr>
                  in
                    (case Cache_Stat (fs_bs fs1) (Hash m) of
                       Inl err \<Rightarrow> (Inl err, fs1)
                     | Inr mexists \<Rightarrow>
                         (case (if \<not> mexists then Cache_Put (fs_bs fs1) (Hash m) (snd (Json x m1))
                                else (Inr (), fs_bs fs1)) of
                            (Inl err, c) \<Rightarrow> (Inl err, fs1\<lparr>fs_bs := c\<rparr>)
                          | (Inr u, c) \<Rightarrow>
                              let (f, fs2) = NewFile (fs1\<lparr>fs_bs := c\<rparr>) m (Some d) in
                              (case Dir_Save x now (set_child fs2 d nm f) d of
                                 (Inl err, fs3) \<Rightarrow> (Inl err, fs3)
                               | (Inr u, fs3) \<Rightarrow>
                                   (case file_at fs3 f of
                                      None \<Rightarrow> (Inl (Panic ''nil pointer dereference''), fs3)
                                    | Some file \<Rightarrow>
                                        (Inr f,
                                         (set_node fs3 f
                                            (FileNode (file\<lparr>openCount := openCount file + 1\<rparr>)))
                                          \<lparr>openFds := openFds fs3 + 1,
                                           stats := (stats fs3)\<lparr>stats_updated := True,
                                             FilesCreated := FilesCreated (stats fs3) + 1\<rparr>\<rparr>))))))))"

subsection \<open>Concrete inputs\<close>

text \<open>
  A plain instance of the external functions, for evaluating the model: the hash of a
  \<open>Meta\<close> is its encoding, which lists type, name and references in their order.
\<close>

fun iref_text :: "iref \<Rightarrow> string" where
  "iref_text (HashRef h) = h"
| "iref_text (ChunkRef i h) = h"

definition plain_Json :: "Meta \<Rightarrow> string \<times> bytes" where
  "plain_Json m =
     (Type m @ ''/'' @ Name m @ ''/'' @ concat (map (\<lambda>r. iref_text r @ '','') (Refs m)),
      Type m @ ''/'' @ Name m @ ''/'' @ concat (map (\<lambda>r. iref_text r @ '','') (Refs m)))"

definition plain_ext :: ext where
  "plain_ext =
     \<lparr>NewMeta = zero_Meta,
      Json = plain_Json,
      NewMetaFromBlob = (\<lambda>h blob. Inr (zero_Meta\<lparr>Name := blob, Type := ''file'', Hash := h\<rparr>)),
      json_Marshal = (\<lambda>r. Inr (Ref r)),
      Root_JSON = (\<lambda>r. Inr (Ref r)),
      NewFromJSON = (\<lambda>data v. Inr \<lparr>Ref = data, Version = v, Comment = ''''\<rparr>),
      Format_RFC3339 = (\<lambda>t. ''2016-01-01T00:00:00Z'')\<rparr>"



definition empty_Tier :: Tier where
  "empty_Tier = \<lparr>blobs = Map.empty, get_fault = None, put_fault = None, stat_fault = None\<rparr>"

definition empty_VKV :: VKV where
  "empty_VKV = \<lparr>entries = (\<lambda>k. []), kv_fault = None\<rparr>"

definition file_node :: "string \<Rightarrow> string \<Rightarrow> addr \<Rightarrow> Node" where
  "file_node nm h p =
     FileNode \<lparr>fdata = None, fmeta = zero_Meta\<lparr>Name := nm, Type := ''file'', Hash := h\<rparr>,
               FakeFile = False, fparent = Some p, updated = False, openCount = 0\<rparr>"

definition fs_of :: "Node list \<Rightarrow> FS" where
  "fs_of h =
     \<lparr>heap = h, root = Some 0, rkv = empty_VKV, lkv = empty_VKV,
      fs_bs = \<lparr>backend = empty_Tier, bs = empty_Tier\<rparr>, name = ''fs'', immutable = False,
      lastOP = 0, local = None, remote = None, cache = [], openFds = 0,
      stats = \<lparr>FilesCreated = 0, DirsCreated = 0, stats_updated = False\<rparr>, sync_sent = 0,
      remote_index = (\<lambda>r. Inl ErrNotFound)\<rparr>"

text \<open>A root directory with two files.\<close>

definition root_ab :: Dir where
  "root_ab = \<lparr>dmeta = zero_Meta\<lparr>Type := ''dir'', ModTime := ''t0''\<rparr>, dparent = None,
              Children = Some [(''a'', 1), (''b'', 2)]\<rparr>"

definition fs_ab :: FS where
  "fs_ab = fs_of [DirNode root_ab, file_node ''a'' ''ha'' 0, file_node ''b'' ''hb'' 0]"





text \<open>A Content Store whose local tier cannot be read, and one whose local tier is empty.\<close>

definition local_faulty :: Cache where
  "local_faulty =
     \<lparr>backend = empty_Tier\<lparr>get_fault := Some EIO\<rparr>,
      bs = empty_Tier\<lparr>blobs := [''h1'' \<mapsto> ''data'']\<rparr>\<rparr>"

definition local_cold :: Cache where
  "local_cold = \<lparr>backend = empty_Tier, bs = empty_Tier\<lparr>blobs := [''h1'' \<mapsto> ''data'']\<rparr>\<rparr>"

text \<open>An open file holding \<open>hello\<close>, under a root directory.\<close>

definition hello_file :: File where
  "hello_file =
     \<lparr>fdata = Some ''hello'', fmeta = zero_Meta\<lparr>Name := ''a'', Type := ''file'', Hash := ''ha''\<rparr>,
      FakeFile = False, fparent = Some 0, updated = False, openCount = 1\<rparr>"

definition fs_hello :: FS where
  "fs_hello =
     fs_of [DirNode (root_ab\<lparr>Children := Some [(''a'', 1)]\<rparr>), FileNode hello_file]"

text \<open>The references \<^verbatim>\<open>Dir.Save\<close> adds for a child map, in the order of its iteration.\<close>

definition child_hashes :: "FS \<Rightarrow> (string \<times> addr) list \<Rightarrow> iref list" where
  "child_hashes fs cs = map (\<lambda>kc. HashRef (Hash (node_Meta (heap fs ! snd kc)))) cs"

subsection \<open>\<^verbatim>\<open>FS.compareIndex\<close>\<close>

text \<open>
  \<^verbatim>\<open>strings.Split(s, sep)\<close> for a separator of one character: the segments of \<open>s\<close>
  between the separators, one more than there are separators.
\<close>

fun strings_Split :: "char \<Rightarrow> string \<Rightarrow> string list" where
  "strings_Split sep [] = [[]]"
| "strings_Split sep (c # cs) =
     (if c = sep then [] # strings_Split sep cs
      else (case strings_Split sep cs of
              [] \<Rightarrow> [[c]]
            | seg # segs \<Rightarrow> (c # seg) # segs))"

record DiffNode =
  Path :: string
  NodeHash :: string

record Diff =
  Added :: "DiffNode list"
  Conflicted :: "DiffNode list"
  DeletedCandidates :: "DiffNode list"

text \<open>\<^verbatim>\<open>ByLength.Less\<close>, on the two elements instead of their indices.\<close>

definition ByLength_Less :: "DiffNode \<Rightarrow> DiffNode \<Rightarrow> bool" where
  "ByLength_Less a b =
     (length (strings_Split CHR ''/'' (Path a)) > length (strings_Split CHR ''/'' (Path b)))"

text \<open>
  Modelled from the spec: \<^verbatim>\<open>sort.Sort\<close> belongs to the Go library; it sorts in
  increasing order of \<^verbatim>\<open>Less\<close> and is not stable. The model inserts each element
  before the first one that is not less than it.
\<close>

fun insert_by :: "('a \<Rightarrow> 'a \<Rightarrow> bool) \<Rightarrow> 'a \<Rightarrow> 'a list \<Rightarrow> 'a list" where
  "insert_by lt x [] = [x]"
| "insert_by lt x (y # ys) = (if lt y x then y # insert_by lt x ys else x # y # ys)"

definition sort_Sort :: "('a \<Rightarrow> 'a \<Rightarrow> bool) \<Rightarrow> 'a list \<Rightarrow> 'a list" where
  "sort_Sort lt xs = foldr (insert_by lt) xs []"

text \<open>
  The two loops of \<^verbatim>\<open>compareIndex\<close>; an index is the list of the entries of a
  \<^verbatim>\<open>map[string]string\<close> in the order the loop visits them.
\<close>

fun compare_remote :: "(string \<times> string) list \<Rightarrow> (string \<times> string) list \<Rightarrow> Diff \<Rightarrow> Diff" where
  "compare_remote localIndex [] diff = diff"
| "compare_remote localIndex ((p, ref) # rest) diff =
     (case map_of localIndex p of
        Some lref \<Rightarrow>
          if ref \<noteq> lref
          then compare_remote localIndex rest
                 (diff\<lparr>Conflicted := Conflicted diff @ [\<lparr>Path = p, NodeHash = ref\<rparr>]\<rparr>)
          else compare_remote localIndex rest diff
      | None \<Rightarrow>
          compare_remote localIndex rest (diff\<lparr>Added := Added diff @ [\<lparr>Path = p, NodeHash = ref\<rparr>]\<rparr>))"

fun compare_local :: "(string \<times> string) list \<Rightarrow> (string \<times> string) list \<Rightarrow> Diff \<Rightarrow> Diff" where
  "compare_local remoteIndex [] diff = diff"
| "compare_local remoteIndex ((p, ref) # rest) diff =
     (if map_of remoteIndex p = None
      then compare_local remoteIndex rest
             (diff\<lparr>DeletedCandidates := DeletedCandidates diff @ [\<lparr>Path = p, NodeHash = ref\<rparr>]\<rparr>)
      else compare_local remoteIndex rest diff)"

text \<open>
  \<^verbatim>\<open>compareIndex\<close>. It also deletes the entry \<open>/\<close> from the two maps it is given,
  which its caller does not read again.
\<close>

definition compareIndex :: "(string \<times> string) list \<Rightarrow> (string \<times> string) list \<Rightarrow> error + Diff" where
  "compareIndex localIndex0 remoteIndex0 =
     (let remoteIndex = map_delete ''/'' remoteIndex0;
          localIndex = map_delete ''/'' localIndex0;
          diff = \<lparr>Added = [], Conflicted = [], DeletedCandidates = []\<rparr>;
          diff1 = compare_remote localIndex remoteIndex diff;
          diff2 = compare_local remoteIndex localIndex diff1
      in Inr (diff2\<lparr>DeletedCandidates := sort_Sort ByLength_Less (DeletedCandidates diff2)\<rparr>))"

text \<open>The number of path segments \<^verbatim>\<open>ByLength\<close> compares.\<close>

definition segments :: "DiffNode \<Rightarrow> nat" where
  "segments n = length (strings_Split CHR ''/'' (Path n))"

definition mkDiffNode :: "string \<times> string \<Rightarrow> DiffNode" where
  "mkDiffNode e = \<lparr>Path = fst e, NodeHash = snd e\<rparr>"

text \<open>A local and a remote index.\<close>

definition idx_local :: "(string \<times> string) list" where
  "idx_local = [(''/'', ''r1''), (''/a'', ''h1''), (''/b'', ''h3''), (''/b/c/d'', ''h2''),
                (''/b/c'', ''h5''), (''/e'', ''h6'')]"

definition idx_remote :: "(string \<times> string) list" where
  "idx_remote = [(''/'', ''r2''), (''/a'', ''h9''), (''/n'', ''h4''), (''/e'', ''h6'')]"

text \<open>
  The nodes form a tree when they can be given levels: a directory's parent lies at a
  lower level, its children at a higher one, and the root directory of the filesystem
  at level 0.
\<close>

definition tree_levels :: "(addr \<Rightarrow> nat) \<Rightarrow> FS \<Rightarrow> bool" where
  "tree_levels lvl fs \<longleftrightarrow>
     (\<forall>a dir. dir_at fs a = Some dir \<longrightarrow>
        (\<forall>p. dparent dir = Some p \<longrightarrow> lvl p < lvl a)
        \<and> (\<forall>cs. Children dir = Some cs \<longrightarrow> (\<forall>kc \<in> set cs. lvl a < lvl (snd kc))))
     \<and> (\<forall>r. root fs = Some r \<longrightarrow> lvl r = 0)"

subsection \<open>\<^verbatim>\<open>FS.loadRoot\<close>\<close>

definition kvDataToDir :: "ext \<Rightarrow> FS \<Rightarrow> bytes \<Rightarrow> int \<Rightarrow> (error + Root \<times> addr) \<times> FS" where
  "kvDataToDir x fs data version =
     (case NewFromJSON x data version of
        Inl err \<Rightarrow> (Inl err, fs)
      | Inr lroot \<Rightarrow>
          (case Cache_Get (fs_bs fs) (Ref lroot) of
             (Inl err, c) \<Rightarrow> (Inl err, fs\<lparr>fs_bs := c\<rparr>)
           | (Inr blob, c) \<Rightarrow>
               (case NewMetaFromBlob x (Ref lroot) blob of
                  Inl err \<Rightarrow> (Inl err, fs\<lparr>fs_bs := c\<rparr>)
                | Inr m \<Rightarrow>
                    let (dir, fs1) = NewDir (fs\<lparr>fs_bs := c\<rparr>) m None
                    in (Inr (lroot, dir), fs1))))"

text \<open>
  The pattern \<^verbatim>\<open>kv, err := store.Get(key, -1); switch err { case nil: root, node, err =
  f.kvDataToDir(kv.Data, kv.Version); case NotFound: ; default: return err }\<close>. The error
  of \<^verbatim>\<open>kvDataToDir\<close> is overwritten by the next assignment to \<open>err\<close> and never
  tested: on failure the root and the node stay nil. The result holds the three variables
  the pattern sets: the record (\<open>None\<close> when the key is not found), the root, the node.
\<close>

record Loaded =
  ld_kv :: "KeyValue option"
  ld_root :: "Root option"
  ld_node :: "addr option"

definition kvVersion :: "Loaded \<Rightarrow> int" where
  "kvVersion l = kv_Version (the (ld_kv l))"

definition load_mutation ::
  "ext \<Rightarrow> FS \<Rightarrow> error \<Rightarrow> VKV \<Rightarrow> string \<Rightarrow> (error + Loaded) \<times> FS" where
  "load_mutation x fs notfound db key =
     (case vkv_Get notfound db key of
        Inr kv \<Rightarrow>
          (case kvDataToDir x fs (kv_Data kv) (kv_Version kv) of
             (Inl err, fs1) \<Rightarrow> (Inr \<lparr>ld_kv = Some kv, ld_root = None, ld_node = None\<rparr>, fs1)
           | (Inr (r, d), fs1) \<Rightarrow>
               (Inr \<lparr>ld_kv = Some kv, ld_root = Some r, ld_node = Some d\<rparr>, fs1))
      | Inl err \<Rightarrow>
          if err = notfound then (Inr \<lparr>ld_kv = None, ld_root = None, ld_node = None\<rparr>, fs)
          else (Inl err, fs))"

definition initRoot :: "ext \<Rightarrow> nat \<Rightarrow> FS \<Rightarrow> (error + addr) \<times> FS" where
  "initRoot x now fs =
     (let (newRoot, fs1) = alloc fs (DirNode \<lparr>dmeta = zero_Meta, dparent = None,
                                              Children = Some []\<rparr>)
      in (case Dir_Save x now fs1 newRoot of
            (Inl err, fs2) \<Rightarrow> (Inl err, fs2)
          | (Inr u, fs2) \<Rightarrow> (Inr newRoot, fs2)))"

text \<open>
  \<^verbatim>\<open>for _, version := range versions { if f.lkv.Put(...); err != nil { return err } }\<close>:
  the condition tests the \<open>err\<close> of the enclosing scope, which is nil, so the result of
  each \<^verbatim>\<open>Put\<close> is dropped.
\<close>

fun put_versions :: "VKV \<Rightarrow> string \<Rightarrow> KeyValue list \<Rightarrow> VKV" where
  "put_versions db key [] = db"
| "put_versions db key (v # vs) =
     (case vkv_Put db key (kv_Hash v) (kv_Data v) (kv_Version v) of
        Inl err \<Rightarrow> put_versions db key vs
      | Inr (kv, db1) \<Rightarrow> put_versions db1 key vs)"

text \<open>\<^verbatim>\<open>f.root = f.Mount().node.(*Dir); return nil\<close>\<close>

definition set_root_from_Mount :: "FS \<Rightarrow> (error + unit) \<times> FS" where
  "set_root_from_Mount fs =
     (case Mount_node fs of
        Inl e \<Rightarrow> (Inl e, fs)
      | Inr node \<Rightarrow> (Inr (), fs\<lparr>root := node\<rparr>))"

text \<open>
  The fresh-root case, shared by \<^verbatim>\<open>loadRoot\<close> and \<^verbatim>\<open>Pull\<close>: \<^verbatim>\<open>initRoot\<close>, commit
  the Root to the WIP track, activate it as the local Mount. \<open>localRoot.Version =
  kv.Version\<close> comes before the test of \<open>err\<close>: a failed \<^verbatim>\<open>Put\<close> (nil \<open>kv\<close>) panics.
\<close>

definition fresh_root :: "ext \<Rightarrow> nat \<Rightarrow> FS \<Rightarrow> (error + unit) \<times> FS" where
  "fresh_root x now fs =
     (case initRoot x now fs of
        (Inl err, fs1) \<Rightarrow> (Inl err, fs1)
      | (Inr newRoot, fs1) \<Rightarrow>
          (case deref fs1 newRoot of
             None \<Rightarrow> (Inl (Panic ''nil pointer dereference''), fs1)
           | Some node \<Rightarrow>
               (case Root_JSON x \<lparr>Ref = Hash (node_Meta node), Version = 0, Comment = ''''\<rparr> of
                  Inl err \<Rightarrow> (Inl err, fs1)
                | Inr jsroot \<Rightarrow>
                    (case vkv_Put (lkv fs1) (localRootKey (name fs1)) '''' jsroot (-1) of
                       Inl err \<Rightarrow> (Inl (Panic ''nil pointer dereference''), fs1)
                     | Inr (kv, db) \<Rightarrow>
                         set_root_from_Mount
                           (fs1\<lparr>lkv := db,
                                local := Some \<lparr>mnt_immutable = False, mnt_node = Some newRoot,
                                  mnt_root = Some \<lparr>Ref = Hash (node_Meta node),
                                    Version = kv_Version kv, Comment = ''''\<rparr>\<rparr>\<rparr>)))))"

definition loadRoot :: "ext \<Rightarrow> nat \<Rightarrow> FS \<Rightarrow> (error + unit) \<times> FS" where
  "loadRoot x now fs0 =
     (case load_mutation x fs0 ErrNotFound (lkv fs0) (rootKey (name fs0)) of
        (Inl err, fs1) \<Rightarrow> (Inl err, fs1)
      | (Inr loc, fs1) \<Rightarrow>
     (case load_mutation x fs1 ErrNotFound (lkv fs1) (localRootKey (name fs1)) of
        (Inl err, fs2) \<Rightarrow> (Inl err, fs2)
      | (Inr wip, fs2) \<Rightarrow>
     (case load_mutation x fs2 ErrKeyNotFound (rkv fs2) (rootKey (name fs2)) of
        (Inl err, fs) \<Rightarrow> (Inl err, fs)
      | (Inr rem, fs) \<Rightarrow>
          if ld_kv wip \<noteq> None \<and>
             ((ld_kv loc = None \<and> ld_kv rem = None)
              \<or> (ld_kv rem \<noteq> None \<and> ld_kv loc = None \<and> kvVersion wip > kvVersion rem)
              \<or> (ld_kv loc \<noteq> None \<and> ld_kv rem \<noteq> None \<and> kvVersion wip > kvVersion loc
                  \<and> kvVersion wip > kvVersion rem))
          then set_root_from_Mount
                 (fs\<lparr>local := Some \<lparr>mnt_immutable = Immutable fs, mnt_node = ld_node wip,
                                     mnt_root = ld_root wip\<rparr>\<rparr>)
          else if ld_kv loc = None \<and> ld_kv rem = None then fresh_root x now fs
          else if ld_kv loc \<noteq> None \<and> ld_kv rem \<noteq> None then
            (case (ld_root loc, ld_root rem) of
               (Some localRoot, Some remoteRoot) \<Rightarrow>
                 if Version localRoot = Version remoteRoot
                 then (Inr (),
                       fs\<lparr>remote := Some \<lparr>mnt_immutable = Immutable fs,
                             mnt_node = ld_node loc, mnt_root = ld_root loc\<rparr>\<rparr>)
                 else if kvVersion loc > kvVersion rem
                 then (Inl (Err ''BlobStash instance seems out of sync, version mismatch''), fs)
                 else
                   (case vkv_Put (lkv fs) (rootKey (name fs)) (kv_Hash (the (ld_kv rem)))
                           (kv_Data (the (ld_kv rem))) (kvVersion rem) of
                      Inl err \<Rightarrow> (Inl err, fs)
                    | Inr (kv, db) \<Rightarrow>
                        set_root_from_Mount
                          (fs\<lparr>lkv := db,
                               remote := Some \<lparr>mnt_immutable = Immutable fs,
                                 mnt_node = ld_node rem, mnt_root = ld_root rem\<rparr>\<rparr>))
             | _ \<Rightarrow> (Inl (Panic ''nil pointer dereference''), fs))
          else if ld_kv rem \<noteq> None \<and> ld_kv loc = None then
            (case vkv_Versions (rkv fs) (rootKey (name fs)) of
               Inl err \<Rightarrow> (Inl err, fs)
             | Inr versions \<Rightarrow>
                 set_root_from_Mount
                   (fs\<lparr>lkv := put_versions (lkv fs) (rootKey (name fs)) versions,
                        remote := Some \<lparr>mnt_immutable = Immutable fs,
                          mnt_node = ld_node rem, mnt_root = ld_root rem\<rparr>\<rparr>))
          else (Inl (Err ''shouldn't happen''), fs))))"

text \<open>
  A filesystem at startup (no mount, no working directory) whose local mirror of the
  remote track and the remote track both hold version 5 of the same root.
\<close>

definition root_v5 :: KeyValue where
  "root_v5 = \<lparr>kv_Hash = '''', kv_Data = ''hr'', kv_Version = 5\<rparr>"

definition fs_in_sync :: FS where
  "fs_in_sync =
     (fs_of [])\<lparr>root := None,
       lkv := \<lparr>entries = (\<lambda>k. if k = ''blobfs:root:fs'' then [root_v5] else []), kv_fault = None\<rparr>,
       rkv := \<lparr>entries = (\<lambda>k. if k = ''blobfs:root:fs'' then [root_v5] else []), kv_fault = None\<rparr>,
       fs_bs := \<lparr>backend = empty_Tier\<lparr>blobs := [''hr'' \<mapsto> '''']\<rparr>, bs = empty_Tier\<rparr>\<rparr>"

subsection \<open>\<^verbatim>\<open>FS.Refs\<close> and \<^verbatim>\<open>FS.Push\<close>\<close>

text \<open>
  The callback \<^verbatim>\<open>FS.Refs\<close> gives to \<^verbatim>\<open>iterDir\<close>: the hash of the node, then, for
  a file, the hash in each of its \<open>[index, hash]\<close> references (another kind of reference
  fails the type assertion).
\<close>

fun chunk_refs :: "iref list \<Rightarrow> error + string list" where
  "chunk_refs [] = Inr []"
| "chunk_refs (HashRef h # rs) = Inl (Panic ''interface conversion'')"
| "chunk_refs (ChunkRef i h # rs) =
     (case chunk_refs rs of Inl e \<Rightarrow> Inl e | Inr hs \<Rightarrow> Inr (h # hs))"

definition Refs_cb :: "Node \<Rightarrow> string list \<Rightarrow> error + string list" where
  "Refs_cb node refs =
     (if node_IsDir node then Inr (refs @ [Hash (node_Meta node)])
      else (case chunk_refs (Refs (node_Meta node)) of
              Inl e \<Rightarrow> Inl e
            | Inr hs \<Rightarrow> Inr (refs @ [Hash (node_Meta node)] @ hs)))"

text \<open>
  \<^verbatim>\<open>iterDir\<close> with that callback: the children first (directories recursively), then
  the directory itself. The recursion over the tree is bounded by \<open>n\<close> nested calls.
\<close>

fun iterDir :: "nat \<Rightarrow> ext \<Rightarrow> FS \<Rightarrow> addr \<Rightarrow> string list \<Rightarrow> (error + string list) \<times> FS"
  and iterDir_children ::
    "nat \<Rightarrow> ext \<Rightarrow> FS \<Rightarrow> (string \<times> addr) list \<Rightarrow> string list \<Rightarrow> (error + string list) \<times> FS"
  where
  "iterDir 0 x fs dir refs = (Inl OutOfFuel, fs)"
| "iterDir (Suc n) x fs dir refs =
     (case ensure_loaded x fs dir of
        (Inl err, fs1) \<Rightarrow> (Inl err, fs1)
      | (Inr u, fs1) \<Rightarrow>
          (case iterDir_children n x fs1 (children_of fs1 dir) refs of
             (Inl err, fs2) \<Rightarrow> (Inl err, fs2)
           | (Inr refs1, fs2) \<Rightarrow>
               (case deref fs2 dir of
                  None \<Rightarrow> (Inl (Panic ''nil pointer dereference''), fs2)
                | Some node \<Rightarrow> (Refs_cb node refs1, fs2))))"
| "iterDir_children n x fs [] refs = (Inr refs, fs)"
| "iterDir_children n x fs ((k, c) # cs) refs =
     (case deref fs c of
        None \<Rightarrow> (Inl (Panic ''nil pointer dereference''), fs)
      | Some node \<Rightarrow>
          (case (if node_IsDir node then iterDir n x fs c refs else (Refs_cb node refs, fs)) of
             (Inl err, fs1) \<Rightarrow> (Inl err, fs1)
           | (Inr refs1, fs1) \<Rightarrow> iterDir_children n x fs1 cs refs1))"

definition FS_Refs :: "nat \<Rightarrow> ext \<Rightarrow> FS \<Rightarrow> addr option \<Rightarrow> (error + string list) \<times> FS" where
  "FS_Refs n x fs rootDir =
     (case rootDir of
        None \<Rightarrow> (Inl (Panic ''nil pointer dereference''), fs)
      | Some dir \<Rightarrow> iterDir n x fs dir [])"

text \<open>
  The loop of \<^verbatim>\<open>Push\<close> over the references: skip the blobs the remote has, upload
  the others. A failed \<^verbatim>\<open>Get\<close> is only logged, and a nil blob is uploaded.
\<close>

fun push_blobs :: "Cache \<Rightarrow> string list \<Rightarrow> (error + unit) \<times> Cache" where
  "push_blobs c [] = (Inr (), c)"
| "push_blobs c (ref # refs) =
     (case Cache_StatRemote c ref of
        Inl err \<Rightarrow> (Inl err, c)
      | Inr exists \<Rightarrow>
          if exists then push_blobs c refs
          else
            (case Cache_Get c ref of
               (res, c1) \<Rightarrow>
                 (case Cache_PutRemote c1 ref (case res of Inl err \<Rightarrow> [] | Inr blob \<Rightarrow> blob) of
                    (Inl err, c2) \<Rightarrow> (Inl err, c2)
                  | (Inr u, c2) \<Rightarrow> push_blobs c2 refs)))"

text \<open>
  \<^verbatim>\<open>FS.Push\<close>; \<open>comment\<close> is \<open>None\<close> for a nil slice. The guard reads
  \<open>f.Mount().root.Ref\<close> and \<open>f.local.root.Ref\<close>: a nil mount or a nil root panics.
\<close>

definition Push :: "nat \<Rightarrow> ext \<Rightarrow> FS \<Rightarrow> bytes option \<Rightarrow> (error + unit) \<times> FS" where
  "Push n x fs comment =
     (case FS_Mount (local fs) (remote fs) of
        Inl e \<Rightarrow> (Inl e, fs)
      | Inr None \<Rightarrow> (Inl (Panic ''nil pointer dereference''), fs)
      | Inr (Some m) \<Rightarrow>
     (case (mnt_root m, local fs) of
        (Some mroot, Some l) \<Rightarrow>
          (case mnt_root l of
             None \<Rightarrow> (Inl (Panic ''nil pointer dereference''), fs)
           | Some lroot \<Rightarrow>
               if Ref mroot \<noteq> Ref lroot then (Inr (), fs)
               else
                 (case (case vkv_Get ErrKeyNotFound (rkv fs) (rootKey (name fs)) of
                          Inr remoteKv \<Rightarrow>
                            (case kvDataToDir x fs (kv_Data remoteKv) (kv_Version remoteKv) of
                               (Inl err, fs1) \<Rightarrow> (Inl err, fs1)
                             | (Inr rn, fs1) \<Rightarrow> (Inr (), fs1))
                        | Inl err \<Rightarrow>
                            if err = ErrKeyNotFound then (Inr (), fs) else (Inl err, fs)) of
                    (Inl err, fs1) \<Rightarrow> (Inl err, fs1)
                  | (Inr u, fs1) \<Rightarrow>
                      let croot = (case comment of None \<Rightarrow> lroot
                                   | Some c \<Rightarrow> lroot\<lparr>Comment := c\<rparr>);
                          fs2 = fs1\<lparr>local := Some (l\<lparr>mnt_root := Some croot\<rparr>)\<rparr>
                      in
                        (case FS_Refs n x fs2 (root fs2) of
                           (Inl err, fs3) \<Rightarrow> (Inl err, fs3)
                         | (Inr refs, fs3) \<Rightarrow>
                             (case push_blobs (fs_bs fs3) refs of
                                (Inl err, c) \<Rightarrow> (Inl err, fs3\<lparr>fs_bs := c\<rparr>)
                              | (Inr u, c) \<Rightarrow>
                                  (case Root_JSON x croot of
                                     Inl err \<Rightarrow> (Inl err, fs3\<lparr>fs_bs := c\<rparr>)
                                   | Inr jsRoot \<Rightarrow>
                                       (case vkv_Put (rkv fs3) (rootKey (name fs3)) '''' jsRoot
                                               (Version croot) of
                                          Inl err \<Rightarrow> (Inl err, fs3\<lparr>fs_bs := c\<rparr>)
                                        | Inr (kv, rdb) \<Rightarrow>
                                            (case vkv_Put (lkv fs3) (rootKey (name fs3)) '''' jsRoot
                                                    (Version croot) of
                                               Inl err \<Rightarrow> (Inl err, fs3\<lparr>fs_bs := c, rkv := rdb\<rparr>)
                                             | Inr (kv', ldb) \<Rightarrow>
                                                 (Inr (), fs3\<lparr>fs_bs := c, rkv := rdb,
                                                                lkv := ldb\<rparr>))))))))
      | _ \<Rightarrow> (Inl (Panic ''nil pointer dereference''), fs)))"

text \<open>A filesystem after \<^verbatim>\<open>loadRoot\<close> found it in sync: the remote Mount only.\<close>

definition fs_remote_only :: FS where
  "fs_remote_only =
     (snd (loadRoot plain_ext 0 fs_in_sync))\<lparr>root := Some 0\<rparr>"

subsection \<open>\<^verbatim>\<open>FS.Pull\<close>\<close>

text \<open>
  \<^verbatim>\<open>filepath.Clean\<close> and \<^verbatim>\<open>filepath.Join\<close> on a Unix platform: \<^verbatim>\<open>Join\<close> drops
  the empty elements, joins the others with \<open>/\<close> and cleans the result; \<^verbatim>\<open>Clean\<close>
  drops empty and \<open>.\<close> segments and resolves \<open>..\<close> against the segment before it.
\<close>

fun clean_segments :: "bool \<Rightarrow> string list \<Rightarrow> string list \<Rightarrow> string list" where
  "clean_segments rooted [] out = rev out"
| "clean_segments rooted (seg # segs) out =
     (if seg = '''' \<or> seg = ''.'' then clean_segments rooted segs out
      else if seg = ''..'' then
        (case out of
           [] \<Rightarrow> if rooted then clean_segments rooted segs []
                 else clean_segments rooted segs [''..'']
         | prev # below \<Rightarrow>
             if prev = ''..'' then clean_segments rooted segs (''..'' # out)
             else clean_segments rooted segs below)
      else clean_segments rooted segs (seg # out))"

fun join_slash :: "string list \<Rightarrow> string" where
  "join_slash [] = ''''"
| "join_slash [seg] = seg"
| "join_slash (seg # segs) = seg @ ''/'' @ join_slash segs"

definition filepath_Clean :: "string \<Rightarrow> string" where
  "filepath_Clean path =
     (if path = '''' then ''.''
      else
        let rooted = (hd path = CHR ''/'');
            out = join_slash (clean_segments rooted (strings_Split CHR ''/'' path) [])
        in if rooted then ''/'' @ out else if out = '''' then ''.'' else out)"

definition filepath_Join :: "string list \<Rightarrow> string" where
  "filepath_Join elems =
     (if filter (\<lambda>e. e \<noteq> '''') elems = [] then ''''
      else filepath_Clean (join_slash (filter (\<lambda>e. e \<noteq> '''') elems)))"

text \<open>
  \<^verbatim>\<open>buildLocalIndex\<close>: the path and hash of the node, and for a directory those of its
  children, directories recursively (at most \<open>n\<close> nested calls).
\<close>

fun buildLocalIndex ::
    "nat \<Rightarrow> ext \<Rightarrow> FS \<Rightarrow> addr \<Rightarrow> string \<Rightarrow> (error + (string \<times> string) list) \<times> FS"
  and buildLocalIndex_children ::
    "nat \<Rightarrow> ext \<Rightarrow> FS \<Rightarrow> (string \<times> addr) list \<Rightarrow> string \<Rightarrow> string \<Rightarrow> (string \<times> string) list
       \<Rightarrow> (error + (string \<times> string) list) \<times> FS"
  where
  "buildLocalIndex 0 x fs a p = (Inl OutOfFuel, fs)"
| "buildLocalIndex (Suc n) x fs a p =
     (case deref fs a of
        None \<Rightarrow> (Inl (Panic ''nil pointer dereference''), fs)
      | Some node \<Rightarrow>
          if node_IsDir node
          then (case ensure_loaded x fs a of
                  (Inl err, fs1) \<Rightarrow> (Inl err, fs1)
                | (Inr u, fs1) \<Rightarrow>
                    buildLocalIndex_children n x fs1 (children_of fs1 a) p (Name (node_Meta node))
                      [(filepath_Join [p, Name (node_Meta node)], Hash (node_Meta node))])
          else (Inr [(filepath_Join [p, Name (node_Meta node)], Hash (node_Meta node))], fs))"
| "buildLocalIndex_children n x fs [] p nm index = (Inr index, fs)"
| "buildLocalIndex_children n x fs ((k, c) # cs) p nm index =
     (case deref fs c of
        None \<Rightarrow> (Inl (Panic ''nil pointer dereference''), fs)
      | Some child \<Rightarrow>
          if node_IsDir child
          then (case buildLocalIndex n x fs c (filepath_Join [p, nm]) of
                  (Inl err, fs1) \<Rightarrow> (Inl err, fs1)
                | (Inr childIndex, fs1) \<Rightarrow>
                    buildLocalIndex_children n x fs1 cs p nm
                      (foldl (\<lambda>idx e. map_set (fst e) (snd e) idx) index childIndex))
          else buildLocalIndex_children n x fs cs p nm
                 (map_set (filepath_Join [p, nm, Name (node_Meta child)])
                    (Hash (node_Meta child)) index))"

definition localIndex :: "nat \<Rightarrow> ext \<Rightarrow> FS \<Rightarrow> (error + (string \<times> string) list) \<times> FS" where
  "localIndex n x fs =
     (case root fs of
        None \<Rightarrow> (Inl (Panic ''nil pointer dereference''), fs)
      | Some r \<Rightarrow> buildLocalIndex n x fs r ''/'')"

definition metaFromHash :: "ext \<Rightarrow> FS \<Rightarrow> string \<Rightarrow> (error + Meta) \<times> FS" where
  "metaFromHash x fs hash =
     (case Cache_Get (fs_bs fs) hash of
        (Inl err, c) \<Rightarrow> (Inl err, fs\<lparr>fs_bs := c\<rparr>)
      | (Inr blob, c) \<Rightarrow> (NewMetaFromBlob x hash blob, fs\<lparr>fs_bs := c\<rparr>))"

text \<open>
  The loop of \<^verbatim>\<open>createNode\<close> over the segments of the path, with \<open>node\<close> the
  directory reached so far. A segment that exists is entered with \<^verbatim>\<open>child.(*Dir)\<close>,
  whatever its position; a missing one is created, as a file for the last segment and
  as a directory otherwise.
\<close>

fun createNode_loop ::
  "ext \<Rightarrow> nat \<Rightarrow> FS \<Rightarrow> addr option \<Rightarrow> string list \<Rightarrow> Meta \<Rightarrow> (error + unit) \<times> FS" where
  "createNode_loop x now fs node [] cmeta = (Inr (), fs)"
| "createNode_loop x now fs None (p # ps) cmeta = (Inl (Panic ''nil pointer dereference''), fs)"
| "createNode_loop x now fs (Some nd) (p # ps) cmeta =
     (case ensure_loaded x fs nd of
        (Inl err, fs1) \<Rightarrow> (Inl err, fs1)
      | (Inr u, fs1) \<Rightarrow>
          (case map_of (children_of fs1 nd) p of
             Some child \<Rightarrow>
               (case deref fs1 child of
                  Some (DirNode d) \<Rightarrow> createNode_loop x now fs1 (Some child) ps cmeta
                | _ \<Rightarrow> (Inl (Panic ''interface conversion''), fs1))
           | None \<Rightarrow>
               if ps = []
               then
                 (let (nfile, fs2) = NewFile fs1 cmeta (Some nd) in
                  case Dir_Save x now (set_child fs2 nd p nfile) nd of
                    (Inl err, fs3) \<Rightarrow> (Inl err, fs3)
                  | (Inr u, fs3) \<Rightarrow> createNode_loop x now fs3 (Some nd) ps cmeta)
               else
                 (let (newd, fs2) = NewDir fs1 (zero_Meta\<lparr>Type := ''dir'', Name := p\<rparr>) (Some nd) in
                  case Dir_Save x now (set_child fs2 nd p newd) nd of
                    (Inl err, fs3) \<Rightarrow> (Inl err, fs3)
                  | (Inr u, fs3) \<Rightarrow> createNode_loop x now fs3 (Some newd) ps cmeta)))"

definition createNode :: "ext \<Rightarrow> nat \<Rightarrow> FS \<Rightarrow> string \<Rightarrow> Meta \<Rightarrow> (error + unit) \<times> FS" where
  "createNode x now fs path cmeta =
     (if path = [] then (Inl (Panic ''slice bounds out of range''), fs)
      else createNode_loop x now fs (root fs) (strings_Split CHR ''/'' (tl path)) cmeta)"

text \<open>The loops of the merge over \<open>diff.Added\<close> and \<open>diff.Conflicted\<close>.\<close>

fun merge_added :: "ext \<Rightarrow> nat \<Rightarrow> FS \<Rightarrow> DiffNode list \<Rightarrow> (error + unit) \<times> FS" where
  "merge_added x now fs [] = (Inr (), fs)"
| "merge_added x now fs (added # rest) =
     (case metaFromHash x fs (NodeHash added) of
        (Inl err, fs1) \<Rightarrow> (Inl err, fs1)
      | (Inr m, fs1) \<Rightarrow>
          (case createNode x now fs1 (Path added) m of
             (Inl err, fs2) \<Rightarrow> (Inl err, fs2)
           | (Inr u, fs2) \<Rightarrow> merge_added x now fs2 rest))"

fun merge_conflicted :: "ext \<Rightarrow> nat \<Rightarrow> FS \<Rightarrow> DiffNode list \<Rightarrow> (error + unit) \<times> FS" where
  "merge_conflicted x now fs [] = (Inr (), fs)"
| "merge_conflicted x now fs (conflicted # rest) =
     (case metaFromHash x fs (NodeHash conflicted) of
        (Inl err, fs1) \<Rightarrow> (Inl err, fs1)
      | (Inr m, fs1) \<Rightarrow>
          (case createNode x now fs1 (Path conflicted @ ''.conflicted'')
                  (m\<lparr>Name := Name m @ ''.conflicted''\<rparr>) of
             (Inl err, fs2) \<Rightarrow> (Inl err, fs2)
           | (Inr u, fs2) \<Rightarrow> merge_conflicted x now fs2 rest))"

text \<open>
  The conflict branch of \<^verbatim>\<open>Pull\<close> (lines 1100 to 1177): the two indices, the diff,
  the two loops (the loop over \<open>diff.DeletedCandidates\<close> only logs), then
  \<^verbatim>\<open>*f.root = *f.local.node.(*Dir)\<close> and the invalidation of the cache.
\<close>

definition Pull_merge :: "nat \<Rightarrow> ext \<Rightarrow> nat \<Rightarrow> FS \<Rightarrow> Root option \<Rightarrow> (error + unit) \<times> FS" where
  "Pull_merge n x now fs remoteRoot =
     (case remoteRoot of
        None \<Rightarrow> (Inl (Panic ''nil pointer dereference''), fs)
      | Some rr \<Rightarrow>
     (case remote_index fs (Ref rr) of
        Inl err \<Rightarrow> (Inl err, fs)
      | Inr remoteIndex \<Rightarrow>
     (case localIndex n x fs of
        (Inl err, fs1) \<Rightarrow> (Inl err, fs1)
      | (Inr lIndex, fs1) \<Rightarrow>
     (case compareIndex lIndex remoteIndex of
        Inl err \<Rightarrow> (Inl err, fs1)
      | Inr diff \<Rightarrow>
     (case merge_added x now fs1 (Added diff) of
        (Inl err, fs2) \<Rightarrow> (Inl err, fs2)
      | (Inr u, fs2) \<Rightarrow>
     (case merge_conflicted x now fs2 (Conflicted diff) of
        (Inl err, fs3) \<Rightarrow> (Inl err, fs3)
      | (Inr u, fs3) \<Rightarrow>
          (case (root fs3, local fs3) of
             (Some r, Some l) \<Rightarrow>
               (case mnt_node l of
                  None \<Rightarrow> (Inl (Panic ''nil pointer dereference''), fs3)
                | Some ln \<Rightarrow>
                    (case deref fs3 ln of
                       None \<Rightarrow> (Inl (Panic ''nil pointer dereference''), fs3)
                     | Some node \<Rightarrow> (Inr (), InvalidateCache (set_node fs3 r node))))
           | _ \<Rightarrow> (Inl (Panic ''nil pointer dereference''), fs3))))))))"

text \<open>
  The loop of \<^verbatim>\<open>Pull\<close> that saves the remote mutations locally: it stops at the
  version of the current remote Mount; the result of each \<^verbatim>\<open>Put\<close> is dropped.
\<close>

fun save_mutations :: "Mount option \<Rightarrow> VKV \<Rightarrow> string \<Rightarrow> KeyValue list \<Rightarrow> error + VKV" where
  "save_mutations rem db key [] = Inr db"
| "save_mutations rem db key (v # vs) =
     (case (case rem of
              None \<Rightarrow> Inr False
            | Some r \<Rightarrow>
                (case mnt_root r of
                   None \<Rightarrow> Inl (Panic ''nil pointer dereference'')
                 | Some rr \<Rightarrow> Inr (kv_Version v = Version rr))) of
        Inl e \<Rightarrow> Inl e
      | Inr True \<Rightarrow> Inr db
      | Inr False \<Rightarrow>
          (case vkv_Put db key (kv_Hash v) (kv_Data v) (kv_Version v) of
             Inl err \<Rightarrow> save_mutations rem db key vs
           | Inr (kv, db1) \<Rightarrow> save_mutations rem db1 key vs))"

text \<open>\<^verbatim>\<open>*f.root = *remoteNode.(*Dir)\<close>\<close>

definition copy_to_root :: "FS \<Rightarrow> addr option \<Rightarrow> (error + unit) \<times> FS" where
  "copy_to_root fs remoteNode =
     (case (root fs, remoteNode) of
        (Some r, Some rn) \<Rightarrow>
          (case deref fs rn of
             None \<Rightarrow> (Inl (Panic ''nil pointer dereference''), fs)
           | Some node \<Rightarrow> (Inr (), set_node fs r node))
      | _ \<Rightarrow> (Inl (Panic ''nil pointer dereference''), fs))"

definition Pull :: "nat \<Rightarrow> ext \<Rightarrow> nat \<Rightarrow> FS \<Rightarrow> (error + unit) \<times> FS" where
  "Pull n x now fs0 =
     (case load_mutation x fs0 ErrKeyNotFound (rkv fs0) (rootKey (name fs0)) of
        (Inl err, fs) \<Rightarrow> (Inl err, fs)
      | (Inr rem, fs) \<Rightarrow>
     (case (case vkv_Get ErrNotFound (lkv fs) (rootKey (name fs)) of
              Inr kv \<Rightarrow> Inr (Some kv)
            | Inl err \<Rightarrow> if err = ErrNotFound then Inr None else Inl err) of
        Inl err \<Rightarrow> (Inl err, fs)
      | Inr None \<Rightarrow>
          if ld_kv rem = None then fresh_root x now fs
          else
            (case vkv_Versions (rkv fs) (rootKey (name fs)) of
               Inl err \<Rightarrow> (Inl err, fs)
             | Inr versions \<Rightarrow>
                 let fs1 = fs\<lparr>lkv := put_versions (lkv fs) (rootKey (name fs)) versions,
                              remote := Some \<lparr>mnt_immutable = Immutable fs,
                                mnt_node = ld_node rem, mnt_root = ld_root rem\<rparr>\<rparr>
                 in if root fs1 \<noteq> None
                    then (case copy_to_root fs1 (ld_node rem) of
                            (Inl err, fs2) \<Rightarrow> (Inl err, fs2)
                          | (Inr u, fs2) \<Rightarrow> (Inr (), InvalidateCache fs2))
                    else (Inr (), InvalidateCache (fs1\<lparr>root := ld_node rem\<rparr>)))
      | Inr (Some localKv) \<Rightarrow>
          if ld_kv rem = None then (Inr (), InvalidateCache fs)
          else if kvVersion rem > kv_Version localKv then
            (case vkv_Versions (rkv fs) (rootKey (name fs)) of
               Inl err \<Rightarrow> (Inl err, fs)
             | Inr versions \<Rightarrow>
                 (case save_mutations (remote fs) (lkv fs) (rootKey (name fs)) versions of
                    Inl err \<Rightarrow> (Inl err, fs)
                  | Inr db \<Rightarrow>
                      let fs1 = fs\<lparr>lkv := db\<rparr> in
                      (case (case local fs1 of
                               None \<Rightarrow> Inr False
                             | Some l \<Rightarrow>
                                 (case mnt_root l of
                                    None \<Rightarrow> Inl (Panic ''nil pointer dereference'')
                                  | Some lr \<Rightarrow> Inr (Version lr > kv_Version localKv))) of
                         Inl err \<Rightarrow> (Inl err, fs1)
                       | Inr True \<Rightarrow> Pull_merge n x now fs1 (ld_root rem)
                       | Inr False \<Rightarrow>
                           (case copy_to_root
                                   (fs1\<lparr>remote := Some \<lparr>mnt_immutable = Immutable fs1,
                                           mnt_node = ld_node rem, mnt_root = ld_root rem\<rparr>\<rparr>)
                                   (ld_node rem) of
                              (Inl err, fs2) \<Rightarrow> (Inl err, fs2)
                            | (Inr u, fs2) \<Rightarrow> (Inr (), InvalidateCache fs2)))))
          else if kvVersion rem < kv_Version localKv
          then (Inl (Err ''BlobStash seems out of sync''), fs)
          else (Inr (), fs)))"

text \<open>
  A filesystem whose local work (local Mount at version 7) has diverged from the remote:
  the mirror track is at version 3, the remote track at version 5. Locally \<open>/x\<close> has
  hash \<open>h1\<close> and there is a directory \<open>/x.conflicted\<close>; remotely \<open>/x\<close> has hash \<open>h2\<close>.
  In the second filesystem \<open>/x.conflicted\<close> is a file.
\<close>

definition conflict_root :: Dir where
  "conflict_root =
     \<lparr>dmeta = zero_Meta\<lparr>Type := ''dir'', ModTime := ''t0'', Hash := ''hroot''\<rparr>, dparent = None,
      Children = Some [(''x'', 1), (''x.conflicted'', 2)]\<rparr>"

definition conflicted_dir :: Dir where
  "conflicted_dir =
     \<lparr>dmeta = zero_Meta\<lparr>Name := ''x.conflicted'', Type := ''dir'', ModTime := ''t0'',
                          Hash := ''hd''\<rparr>,
      dparent = Some 0, Children = Some []\<rparr>"

definition diverged :: "Node list \<Rightarrow> FS" where
  "diverged h =
     (fs_of h)\<lparr>
       local := Some \<lparr>mnt_immutable = False, mnt_node = Some 0,
                      mnt_root = Some \<lparr>Ref = ''hroot'', Version = 7, Comment = ''''\<rparr>\<rparr>,
       remote := Some \<lparr>mnt_immutable = False, mnt_node = Some 0,
                       mnt_root = Some \<lparr>Ref = ''hr3'', Version = 3, Comment = ''''\<rparr>\<rparr>,
       lkv := \<lparr>entries = (\<lambda>k. if k = ''blobfs:root:fs''
                               then [\<lparr>kv_Hash = '''', kv_Data = ''hr3'', kv_Version = 3\<rparr>]
                               else if k = ''local:root:fs''
                               then [\<lparr>kv_Hash = '''', kv_Data = ''hroot'', kv_Version = 7\<rparr>]
                               else []),
               kv_fault = None\<rparr>,
       rkv := \<lparr>entries = (\<lambda>k. if k = ''blobfs:root:fs''
                               then [\<lparr>kv_Hash = '''', kv_Data = ''hr3'', kv_Version = 3\<rparr>,
                                     \<lparr>kv_Hash = '''', kv_Data = ''hr5'', kv_Version = 5\<rparr>]
                               else []),
               kv_fault = None\<rparr>,
       fs_bs := \<lparr>backend = empty_Tier\<lparr>blobs := [''hr5'' \<mapsto> '''', ''h2'' \<mapsto> ''x'']\<rparr>,
                 bs = empty_Tier\<rparr>,
       remote_index := (\<lambda>r. if r = ''hr5'' then Inr [(''/'', ''hr5''), (''/x'', ''h2'')]
                             else Inl ErrNotFound)\<rparr>"

definition fs_conflict :: FS where
  "fs_conflict = diverged [DirNode conflict_root, file_node ''x'' ''h1'' 0, DirNode conflicted_dir]"

definition fs_conflict_file :: FS where
  "fs_conflict_file =
     diverged [DirNode conflict_root, file_node ''x'' ''h1'' 0, file_node ''x.conflicted'' ''h3'' 0]"

text \<open>
  A filesystem whose remote Mount is active (version 5 against the local version 4) and
  has the same root hash as the local Mount.
\<close>

definition fs_same_ref :: FS where
  "fs_same_ref =
     (fs_of [DirNode (conflict_root\<lparr>Children := Some []\<rparr>)])\<lparr>
       local := Some \<lparr>mnt_immutable = False, mnt_node = Some 0,
                      mnt_root = Some \<lparr>Ref = ''hroot'', Version = 4, Comment = ''''\<rparr>\<rparr>,
       remote := Some \<lparr>mnt_immutable = False, mnt_node = Some 0,
                       mnt_root = Some \<lparr>Ref = ''hroot'', Version = 5, Comment = ''''\<rparr>\<rparr>,
       rkv := \<lparr>entries = (\<lambda>k. if k = ''blobfs:root:fs''
                               then [\<lparr>kv_Hash = '''', kv_Data = ''hroot'', kv_Version = 5\<rparr>]
                               else []),
               kv_fault = None\<rparr>,
       fs_bs := \<lparr>backend = empty_Tier\<lparr>blobs := [''hroot'' \<mapsto> '''']\<rparr>,
                 bs = empty_Tier\<lparr>blobs := [''hroot'' \<mapsto> '''']\<rparr>\<rparr>\<rparr>"

text \<open>The same divergence without a local \<open>/x.conflicted\<close>.\<close>

definition fs_conflict_free :: FS where
  "fs_conflict_free =
     diverged [DirNode (conflict_root\<lparr>Children := Some [(''x'', 1)]\<rparr>), file_node ''x'' ''h1'' 0]"

subsection \<open>Directories that differ in the order of their children\<close>





text \<open>Every directory has its modification time set.\<close>

definition stamped :: "FS \<Rightarrow> bool" where
  "stamped fs \<longleftrightarrow> (\<forall>a dir. dir_at fs a = Some dir \<longrightarrow> ModTime (dmeta dir) \<noteq> '''')"

section \<open>Properties\<close>

subsection \<open>Mount selection\<close>

text \<open>
  C3. The specification has the local Mount returned when both mounts exist with equal versions.
  \<^verbatim>\<open>FS.Mount\<close> returns the local Mount only when its version is strictly greater:
  with both at version 3 the result is the remote Mount, not the local one.
\<close>

theorem FS_Mount_tie_counterexample:
  "FS_Mount (Some \<lparr>mnt_immutable = False, mnt_node = Some 0,
                   mnt_root = Some \<lparr>Ref = ''aa'', Version = 3, Comment = ''''\<rparr>\<rparr>)
            (Some \<lparr>mnt_immutable = True, mnt_node = Some 1,
                   mnt_root = Some \<lparr>Ref = ''bb'', Version = 3, Comment = ''''\<rparr>\<rparr>)
   = Inr (Some \<lparr>mnt_immutable = True, mnt_node = Some 1,
                 mnt_root = Some \<lparr>Ref = ''bb'', Version = 3, Comment = ''''\<rparr>\<rparr>)
   \<and> FS_Mount (Some \<lparr>mnt_immutable = False, mnt_node = Some 0,
                   mnt_root = Some \<lparr>Ref = ''aa'', Version = 3, Comment = ''''\<rparr>\<rparr>)
            (Some \<lparr>mnt_immutable = True, mnt_node = Some 1,
                   mnt_root = Some \<lparr>Ref = ''bb'', Version = 3, Comment = ''''\<rparr>\<rparr>)
   \<noteq> Inr (Some \<lparr>mnt_immutable = False, mnt_node = Some 0,
                 mnt_root = Some \<lparr>Ref = ''aa'', Version = 3, Comment = ''''\<rparr>\<rparr>)"
  by (simp add: FS_Mount_def)

text \<open>
  C3, as amended. Whenever at least one of the two mounts exists (each with a root),
  \<^verbatim>\<open>FS.Mount\<close> returns an existing mount: the only one when one exists; when both
  exist, the local Mount if its version is strictly greater, the remote Mount otherwise
  (remote wins ties). The returned mount's version is the highest of those present.
\<close>

theorem FS_Mount_selection:
  assumes "loc \<noteq> None \<or> rem \<noteq> None"
    and "\<forall>l. loc = Some l \<longrightarrow> mnt_root l \<noteq> None"
    and "\<forall>r. rem = Some r \<longrightarrow> mnt_root r \<noteq> None"
  shows "\<exists>m mr. FS_Mount loc rem = Inr (Some m) \<and> mnt_root m = Some mr
           \<and> (Some m = loc \<or> Some m = rem)
           \<and> (rem = None \<longrightarrow> Some m = loc)
           \<and> (loc = None \<longrightarrow> Some m = rem)
           \<and> (\<forall>l lr r rr. loc = Some l \<and> mnt_root l = Some lr
                  \<and> rem = Some r \<and> mnt_root r = Some rr \<longrightarrow>
                 (if Version lr > Version rr then Some m = loc else Some m = rem)
                 \<and> Version mr = max (Version lr) (Version rr))"
  using assms by (cases loc; cases rem) (auto simp: FS_Mount_def)

text \<open>An instance: local at version 4, remote at version 3.\<close>

theorem FS_Mount_selection_witness:
  "\<exists>m mr. FS_Mount
       (Some \<lparr>mnt_immutable = False, mnt_node = Some 0,
              mnt_root = Some \<lparr>Ref = ''aa'', Version = 4, Comment = ''''\<rparr>\<rparr>)
       (Some \<lparr>mnt_immutable = True, mnt_node = Some 1,
              mnt_root = Some \<lparr>Ref = ''bb'', Version = 3, Comment = ''''\<rparr>\<rparr>) = Inr (Some m)
     \<and> mnt_root m = Some mr \<and> Version mr = 4"
  using FS_Mount_selection
    [of "Some \<lparr>mnt_immutable = False, mnt_node = Some 0,
               mnt_root = Some \<lparr>Ref = ''aa'', Version = 4, Comment = ''''\<rparr>\<rparr>"
        "Some \<lparr>mnt_immutable = True, mnt_node = Some 1,
               mnt_root = Some \<lparr>Ref = ''bb'', Version = 3, Comment = ''''\<rparr>\<rparr>"]
  by auto

subsection \<open>Content Store Get\<close>

text \<open>
  C9. The specification has \<^verbatim>\<open>Cache.Get\<close> fail exactly when the blob is absent or unreadable
  in both tiers. When the local tier fails with an error other than
  \<^verbatim>\<open>ErrBlobNotFound\<close>, \<^verbatim>\<open>Get\<close> returns that error without asking the remote tier,
  which holds the blob.
\<close>

theorem Cache_Get_local_fault_counterexample:
  "tier_Get (bs local_faulty) ''h1'' = Inr ''data''
   \<and> fst (Cache_Get local_faulty ''h1'') = Inl EIO"
  by (simp add: local_faulty_def empty_Tier_def Cache_Get_def tier_Get_def)

text \<open>
  C9, as amended. \<^verbatim>\<open>Cache.Get\<close> returns the local bytes when the local tier has
  them, leaving the store as it is. On a local \<^verbatim>\<open>ErrBlobNotFound\<close> it fetches the bytes
  from the remote tier, writes them to the local tier and returns them. It fails exactly
  when the local tier fails with another error, or when, after a local
  \<^verbatim>\<open>ErrBlobNotFound\<close>, the remote fetch fails or the local write fails. Every Get
  served by the remote tier leaves the blob in the local tier.
\<close>

theorem Cache_Get_tiers:
  "(tier_Get (backend c) hash = Inr blob \<longrightarrow> Cache_Get c hash = (Inr blob, c))
   \<and> (tier_Get (backend c) hash = Inl ErrBlobNotFound \<and> tier_Get (bs c) hash = Inr blob
        \<and> put_fault (backend c) = None \<longrightarrow>
       Cache_Get c hash =
         (Inr blob, c\<lparr>backend := (backend c)\<lparr>blobs := (blobs (backend c))(hash \<mapsto> blob)\<rparr>\<rparr>))
   \<and> ((\<exists>e. fst (Cache_Get c hash) = Inl e) \<longleftrightarrow>
        (\<exists>e. tier_Get (backend c) hash = Inl e \<and> e \<noteq> ErrBlobNotFound)
        \<or> (tier_Get (backend c) hash = Inl ErrBlobNotFound
            \<and> ((\<exists>e. tier_Get (bs c) hash = Inl e) \<or> put_fault (backend c) \<noteq> None)))
   \<and> (tier_Get (backend c) hash = Inl ErrBlobNotFound \<and> fst (Cache_Get c hash) = Inr blob \<longrightarrow>
        tier_Get (bs c) hash = Inr blob
        \<and> blobs (backend (snd (Cache_Get c hash))) hash = Some blob)"
  by (auto simp: Cache_Get_def tier_Put_def split: sum.splits error.splits option.splits)

text \<open>An instance: a blob held by the remote tier only.\<close>

theorem Cache_Get_tiers_witness:
  "tier_Get (backend local_cold) ''h1'' = Inl ErrBlobNotFound
   \<and> tier_Get (bs local_cold) ''h1'' = Inr ''data''
   \<and> put_fault (backend local_cold) = None
   \<and> fst (Cache_Get local_cold ''h1'') = Inr ''data''
   \<and> blobs (backend (snd (Cache_Get local_cold ''h1''))) ''h1'' = Some ''data''"
proof -
  have a: "tier_Get (backend local_cold) ''h1'' = Inl ErrBlobNotFound"
    by (simp add: local_cold_def empty_Tier_def tier_Get_def)
  have b: "tier_Get (bs local_cold) ''h1'' = Inr ''data''"
    by (simp add: local_cold_def empty_Tier_def tier_Get_def)
  have c: "put_fault (backend local_cold) = None"
    by (simp add: local_cold_def empty_Tier_def)
  from Cache_Get_tiers [of local_cold "''h1''" "''data''"] a b c show ?thesis
    by simp
qed

subsection \<open>\<^verbatim>\<open>File.Write\<close>\<close>

text \<open>Adding a length to a non-negative \<^verbatim>\<open>int64\<close> offset, when the sum fits.\<close>

lemma sint_of_nat_small:
  assumes "int n < 2 ^ 63"
  shows "sint (of_nat n :: 64 word) = int n"
proof -
  have "sint (of_nat n :: 64 word) = signed_take_bit 63 (int n)"
    by (simp add: signed_of_nat)
  also have "\<dots> = int n"
    using assms by (simp add: signed_take_bit_int_eq_self)
  finally show ?thesis .
qed

lemma sint_offset_add:
  fixes off :: "64 word"
  assumes "0 \<le> sint off" "sint off + int n < 2 ^ 63"
  shows "sint (off + of_nat n) = sint off + int n"
proof -
  have n: "int n < 2 ^ 63" using assms by linarith
  have "sint (off + of_nat n) = signed_take_bit 63 (sint off + sint (of_nat n :: 64 word))"
    by (simp add: sint_word_ariths)
  also have "\<dots> = signed_take_bit 63 (sint off + int n)"
    by (simp add: sint_of_nat_small [OF n])
  also have "\<dots> = sint off + int n"
    using assms by (simp add: signed_take_bit_int_eq_self)
  finally show ?thesis .
qed

lemma maxInt_le:
  assumes "w \<le> 64"
  shows "maxInt w < 2 ^ 63"
proof -
  have "(2::int) ^ w \<le> 2 ^ 64"
    using assms by (intro power_increasing) auto
  then show ?thesis
    by (simp add: maxInt_def)
qed

text \<open>
  C10. On a mutable filesystem, with \<open>buf\<close> the current buffer (empty for nil),
  \<open>off\<close> the request offset and \<open>len\<close> the length of the request data:
  if \<open>0 \<le> off \<le> length buf\<close> and \<open>off + len \<le> maxInt\<close>, \<^verbatim>\<open>File.Write\<close> succeeds,
  reports \<open>resp.Size = len\<close>, sets the \<open>updated\<close> flag, and the buffer becomes the old
  contents with the data overlaid at the offset, extended past the old end as needed;
  if the offset lies strictly beyond the end of the buffer, the slice expression panics
  and the buffer is left as it was (no gap is filled);
  if \<open>off + len\<close> exceeds \<open>maxInt\<close> (and fits an \<^verbatim>\<open>int64\<close>), the write is rejected
  with \<^verbatim>\<open>EFBIG\<close>.
\<close>

theorem File_Write_mutable:
  assumes "\<not> immutable fs" and "file_at fs f = Some file" and "w \<le> 64"
    and "buf = (case fdata file of None \<Rightarrow> [] | Some b \<Rightarrow> b)"
    and "off = sint (Offset req)" and "len = length (Data req)"
  shows "(0 \<le> off \<and> off \<le> int (length buf) \<and> off + int len \<le> maxInt w \<longrightarrow>
           File_Write w now fs f req =
             (Inr (int len),
              set_node (updateLastOP now fs) f
                (FileNode (file\<lparr>updated := True,
                   fdata := (if fdata file = None \<and> Data req = [] then None
                             else Some (take (nat off) buf @ Data req
                                        @ drop (nat off + len) buf))\<rparr>))))
       \<and> (int (length buf) < off \<and> off + int len \<le> maxInt w \<longrightarrow>
           File_Write w now fs f req =
             (Inl (Panic ''slice bounds out of range''),
              set_node (updateLastOP now fs) f (FileNode (file\<lparr>updated := True\<rparr>))))
       \<and> (0 \<le> off \<and> maxInt w < off + int len \<and> off + int len < 2 ^ 63 \<longrightarrow>
           File_Write w now fs f req =
             (Inl EFBIG, set_node (updateLastOP now fs) f (FileNode (file\<lparr>updated := True\<rparr>))))"
proof -
  have mx: "maxInt w < 2 ^ 63"
    using assms(3) by (rule maxInt_le)
  have fa: "file_at (updateLastOP now fs) f = Some file"
    using assms(2) by (auto simp: file_at_def deref_def updateLastOP_def split: if_splits)
  have im: "\<not> Immutable (updateLastOP now fs)"
    using assms(1) by (simp add: Immutable_def updateLastOP_def)
  have sum: "sint (Offset req + of_nat (length (Data req))) = off + int len"
    if "0 \<le> off" "off + int len < 2 ^ 63"
    using that sint_offset_add [of "Offset req" len] by (simp add: assms(5,6))
  have ok: "File_Write w now fs f req =
             (Inr (int len),
              set_node (updateLastOP now fs) f
                (FileNode (file\<lparr>updated := True,
                   fdata := (if fdata file = None \<and> Data req = [] then None
                             else Some (take (nat off) buf @ Data req
                                        @ drop (nat off + len) buf))\<rparr>)))"
    if h: "0 \<le> off" "off \<le> int (length buf)" "off + int len \<le> maxInt w"
  proof -
    have s: "sint (Offset req + of_nat (length (Data req))) = off + int len"
      using h mx by (intro sum) auto
    have o: "nat off \<le> length buf" using h by linarith
    have l0: "(len = 0) = (Data req = [])" "(0 < len) = (Data req \<noteq> [])"
      by (simp_all add: assms(6))
    show ?thesis
    proof (cases "fdata file")
      case None
      then have "buf = []" by (simp add: assms(4))
      with h have "off = 0" by simp
      with None \<open>buf = []\<close> s h show ?thesis
        by (simp add: File_Write_def Let_def fa im go_copy_def l0 flip: assms(5,6))
    next
      case (Some b)
      then have b: "buf = b" by (simp add: assms(4))
      show ?thesis
      proof (cases "length buf - nat off < len")
        case True
        with Some b s h o show ?thesis
          by (simp add: File_Write_def Let_def fa im go_copy_def min_def l0 flip: assms(5,6))
      next
        case False
        with Some b s h o show ?thesis
          by (simp add: File_Write_def Let_def fa im go_copy_def min_def add.commute l0
              flip: assms(5,6))
      qed
    qed
  qed
  have oob: "File_Write w now fs f req =
             (Inl (Panic ''slice bounds out of range''),
              set_node (updateLastOP now fs) f (FileNode (file\<lparr>updated := True\<rparr>)))"
    if h: "int (length buf) < off" "off + int len \<le> maxInt w"
  proof -
    have "0 \<le> off" using h by linarith
    then have s: "sint (Offset req + of_nat (length (Data req))) = off + int len"
      using h mx by (intro sum) auto
    with h show ?thesis
      by (simp add: File_Write_def Let_def fa im flip: assms(4,5,6))
  qed
  have big: "File_Write w now fs f req =
             (Inl EFBIG, set_node (updateLastOP now fs) f (FileNode (file\<lparr>updated := True\<rparr>)))"
    if h: "0 \<le> off" "maxInt w < off + int len" "off + int len < 2 ^ 63"
  proof -
    have s: "sint (Offset req + of_nat (length (Data req))) = off + int len"
      using h by (intro sum) auto
    with h show ?thesis
      by (simp add: File_Write_def Let_def fa im flip: assms(4,5,6))
  qed
  from ok oob big show ?thesis by blast
qed

text \<open>
  Instances on a buffer holding \<open>hello\<close>: an overlay inside the buffer, an overlay
  that extends it, an offset beyond its end, and a sum beyond \<open>maxInt\<close> of a 32-bit
  platform.
\<close>

theorem File_Write_mutable_witness:
  "File_Write 64 7 fs_hello 1 \<lparr>Offset = 3, Data = ''XY''\<rparr> =
     (Inr 2, set_node (updateLastOP 7 fs_hello) 1
               (FileNode (hello_file\<lparr>updated := True, fdata := Some ''helXY''\<rparr>)))
   \<and> File_Write 64 7 fs_hello 1 \<lparr>Offset = 4, Data = ''XYZ''\<rparr> =
     (Inr 3, set_node (updateLastOP 7 fs_hello) 1
               (FileNode (hello_file\<lparr>updated := True, fdata := Some ''hellXYZ''\<rparr>)))
   \<and> File_Write 64 7 fs_hello 1 \<lparr>Offset = 6, Data = ''XY''\<rparr> =
     (Inl (Panic ''slice bounds out of range''),
      set_node (updateLastOP 7 fs_hello) 1 (FileNode (hello_file\<lparr>updated := True\<rparr>)))
   \<and> File_Write 32 7 fs_hello 1 \<lparr>Offset = 2147483647, Data = ''XY''\<rparr> =
     (Inl EFBIG, set_node (updateLastOP 7 fs_hello) 1 (FileNode (hello_file\<lparr>updated := True\<rparr>)))"
proof -
  have i: "\<not> immutable fs_hello"
    by (simp add: fs_hello_def fs_of_def)
  have f: "file_at fs_hello 1 = Some hello_file"
    by (simp add: fs_hello_def fs_of_def file_at_def deref_def)
  have b: "''hello'' = (case fdata hello_file of None \<Rightarrow> [] | Some b \<Rightarrow> b)"
    by (simp add: hello_file_def)
  show ?thesis
    using File_Write_mutable [OF i f _ b, of 64 3 "\<lparr>Offset = 3, Data = ''XY''\<rparr>" 2 7]
      File_Write_mutable [OF i f _ b, of 64 4 "\<lparr>Offset = 4, Data = ''XYZ''\<rparr>" 3 7]
      File_Write_mutable [OF i f _ b, of 64 6 "\<lparr>Offset = 6, Data = ''XY''\<rparr>" 2 7]
      File_Write_mutable [OF i f _ b, of 32 2147483647 "\<lparr>Offset = 2147483647, Data = ''XY''\<rparr>" 2 7]
    by (simp add: maxInt_def hello_file_def)
qed

subsection \<open>\<^verbatim>\<open>Dir.Save\<close>: the hash and the order of the children\<close>

text \<open>Unfolding the model of \<^verbatim>\<open>Dir.Save\<close> and the concrete inputs.\<close>

lemmas save_defs = Dir_Save_def Save_node_def Save_meta_def Save_root_def dir_at_def deref_def
  set_node_def AddRef_def Cache_Stat_def Cache_Put_def tier_Stat_def tier_Put_def vkv_Put_def
  latest_version_def localRootKey_def Let_def

lemmas test_defs = fs_hello_def hello_file_def fs_ab_def fs_of_def root_ab_def
  file_node_def zero_Meta_def plain_ext_def plain_Json_def empty_Tier_def empty_VKV_def

text \<open>The loop over the children adds their hashes in its order, or panics.\<close>

lemma add_child_refs_eq:
  "add_child_refs fs cs m =
     (if \<forall>kc \<in> set cs. snd kc < length (heap fs)
      then Inr (m\<lparr>Refs := Refs m @ child_hashes fs cs\<rparr>)
      else Inl (Panic ''nil pointer dereference''))"
  by (induction cs arbitrary: m) (fastforce simp: deref_def AddRef_def child_hashes_def)+













lemma stamped_set_node:
  assumes "stamped fs" and "\<And>dir. n = DirNode dir \<Longrightarrow> ModTime (dmeta dir) \<noteq> ''''"
  shows "stamped (set_node fs a n)"
  unfolding stamped_def
proof (intro allI impI)
  fix b dir assume b: "dir_at (set_node fs a n) b = Some dir"
  show "ModTime (dmeta dir) \<noteq> ''''"
  proof (cases "b = a \<and> a < length (heap fs)")
    case True
    then have "n = DirNode dir" using b
      by (cases n) (simp_all add: dir_at_def deref_def set_node_def)
    then show ?thesis by (rule assms(2))
  next
    case False
    then have "dir_at fs b = Some dir" using b
      by (auto simp: dir_at_def deref_def set_node_def split: if_splits)
    then show ?thesis using assms(1) by (simp add: stamped_def)
  qed
qed

lemma stamped_fields:
  "stamped (fs\<lparr>fs_bs := c\<rparr>) = stamped fs"
  "stamped (fs\<lparr>lkv := db, local := mt\<rparr>) = stamped fs"
  by (simp_all add: stamped_def dir_at_def deref_def)


lemma Save_root_stamped:
  assumes "stamped fs"
  shows "stamped (snd (Save_root x fs d h))"
proof -
  have "\<And>db mt a n. deref (fs\<lparr>lkv := db, local := mt\<rparr>) d = Some n \<Longrightarrow>
          stamped (set_node (fs\<lparr>lkv := db, local := mt\<rparr>) a n)"
  proof -
    fix db mt a n assume n: "deref (fs\<lparr>lkv := db, local := mt\<rparr>) d = Some n"
    have "stamped (fs\<lparr>lkv := db, local := mt\<rparr>)" using assms by (simp add: stamped_fields)
    moreover have "\<And>dir. n = DirNode dir \<Longrightarrow> ModTime (dmeta dir) \<noteq> ''''"
      using n assms by (auto simp: stamped_def dir_at_def deref_def split: if_splits)
    ultimately show "stamped (set_node (fs\<lparr>lkv := db, local := mt\<rparr>) a n)"
      by (rule stamped_set_node)
  qed
  then show ?thesis using assms
    by (auto simp: Save_root_def Let_def stamped_fields split: sum.splits option.splits prod.splits)
qed










subsection \<open>Mutations under an immutable filesystem\<close>

text \<open>
  C4. The specification has \<^verbatim>\<open>setxattr\<close> fail with \<^verbatim>\<open>PermissionDenied\<close> under an
  immutable mount. \<^verbatim>\<open>File.Setxattr\<close> returns nil there: it reports success and
  changes nothing but \<open>lastOP\<close>.
\<close>

theorem File_Setxattr_immutable_counterexample:
  "immutable (fs_hello\<lparr>immutable := True\<rparr>)
   \<and> File_Setxattr plain_ext 7 (fs_hello\<lparr>immutable := True\<rparr>) 1 ''user.k'' ''v''
       = (Inr (), fs_hello\<lparr>immutable := True, lastOP := 7\<rparr>)"
  by (simp add: File_Setxattr_def Let_def Immutable_def updateLastOP_def)

text \<open>
  C4, as amended. When the filesystem is immutable (the flag every immutable Mount is
  created from), \<^verbatim>\<open>File.Write\<close>, \<^verbatim>\<open>Dir.Create\<close>, \<^verbatim>\<open>Dir.Mkdir\<close> and
  \<^verbatim>\<open>Dir.Remove\<close> fail with \<^verbatim>\<open>EPERM\<close> and \<^verbatim>\<open>File.Setxattr\<close> returns
  success; each leaves the nodes, their children and extended attributes, the mounts and
  the stores as they were: only \<open>lastOP\<close> is updated.
\<close>

theorem immutable_rejects:
  assumes "immutable fs"
  shows "File_Write w now fs f req = (Inl EPERM, fs\<lparr>lastOP := now\<rparr>)
       \<and> Dir_Create x now fs d nm mode = (Inl EPERM, fs\<lparr>lastOP := now\<rparr>)
       \<and> Dir_Mkdir x now fs d nm = (Inl EPERM, fs\<lparr>lastOP := now\<rparr>)
       \<and> Dir_Remove x now fs d nm = (Inl EPERM, fs\<lparr>lastOP := now\<rparr>)
       \<and> File_Setxattr x now fs f nm xattr = (Inr (), fs\<lparr>lastOP := now\<rparr>)"
  using assms
  by (simp add: File_Write_def Dir_Create_def Dir_Mkdir_def Dir_Remove_def File_Setxattr_def
      Let_def Immutable_def updateLastOP_def)

text \<open>Instances: a write and a mkdir on an immutable filesystem.\<close>

theorem immutable_rejects_witness:
  "immutable (fs_hello\<lparr>immutable := True\<rparr>)
   \<and> File_Write 64 7 (fs_hello\<lparr>immutable := True\<rparr>) 1 \<lparr>Offset = 0, Data = ''XY''\<rparr>
       = (Inl EPERM, fs_hello\<lparr>immutable := True, lastOP := 7\<rparr>)
   \<and> Dir_Mkdir plain_ext 7 (fs_hello\<lparr>immutable := True\<rparr>) 0 ''sub''
       = (Inl EPERM, fs_hello\<lparr>immutable := True, lastOP := 7\<rparr>)"
  using immutable_rejects [of "fs_hello\<lparr>immutable := True\<rparr>" 64 7 1
      "\<lparr>Offset = 0, Data = ''XY''\<rparr>" plain_ext 0 "''sub''"]
  by simp

text \<open>
  \<^verbatim>\<open>Dir.Setxattr\<close> does not test the flag: on an immutable filesystem it saves the
  directory and commits a version to the local WIP track.
\<close>

lemma Dir_Setxattr_immutable_commits:
  "entries (lkv (fs_hello\<lparr>immutable := True\<rparr>)) ''local:root:fs'' = []
   \<and> fst (Dir_Setxattr 2 plain_ext 7 (fs_hello\<lparr>immutable := True\<rparr>) 0 ''user.k'' ''v'') = Inr ()
   \<and> entries (lkv (snd (Dir_Setxattr 2 plain_ext 7 (fs_hello\<lparr>immutable := True\<rparr>) 0 ''user.k'' ''v'')))
        ''local:root:fs''
      = [\<lparr>kv_Hash = '''', kv_Data = ''dir//ha,'', kv_Version = 1\<rparr>]"
  by (simp add: Dir_Setxattr_def updateLastOP_def virtualXAttrs_def set_xattr_def
      test_defs save_defs)

subsection \<open>\<^verbatim>\<open>compareIndex\<close>\<close>

text \<open>Deleting a key from the list of a map's entries.\<close>

lemma map_of_map_delete:
  "map_of (map_delete k xs) p = (if p = k then None else map_of xs p)"
  by (induction xs) (auto simp: map_delete_def)

lemma distinct_map_delete:
  "distinct (map fst xs) \<Longrightarrow> distinct (map fst (map_delete k xs))"
  by (simp add: map_delete_def distinct_map_filter)

lemma set_map_delete:
  "set (map_delete k xs) = {e \<in> set xs. fst e \<noteq> k}"
  by (auto simp: map_delete_def)

text \<open>What the two loops append, and what the sort does.\<close>

lemma compare_remote_eq:
  "compare_remote l rs diff =
     diff\<lparr>Added := Added diff @ map mkDiffNode (filter (\<lambda>e. map_of l (fst e) = None) rs),
          Conflicted := Conflicted diff
            @ map mkDiffNode (filter (\<lambda>e. \<exists>lref. map_of l (fst e) = Some lref \<and> snd e \<noteq> lref) rs)\<rparr>"
  by (induction rs arbitrary: diff) (auto simp: mkDiffNode_def split: option.splits)

lemma compare_local_eq:
  "compare_local r ls diff =
     diff\<lparr>DeletedCandidates := DeletedCandidates diff
            @ map mkDiffNode (filter (\<lambda>e. map_of r (fst e) = None) ls)\<rparr>"
  by (induction ls arbitrary: diff) (auto simp: mkDiffNode_def)

lemma mset_insert_by: "mset (insert_by lt x xs) = add_mset x (mset xs)"
  by (induction xs) auto

lemma mset_sort_Sort: "mset (sort_Sort lt xs) = mset xs"
  by (induction xs) (auto simp: sort_Sort_def mset_insert_by)

lemma set_insert_by: "set (insert_by lt x xs) = insert x (set xs)"
  by (induction xs) auto

lemma sorted_insert_by:
  "sorted_wrt (\<lambda>a b. segments b \<le> segments a) xs \<Longrightarrow>
   sorted_wrt (\<lambda>a b. segments b \<le> segments a) (insert_by ByLength_Less x xs)"
  by (induction xs) (auto simp: set_insert_by ByLength_Less_def segments_def)

lemma sorted_sort_Sort:
  "sorted_wrt (\<lambda>a b. segments b \<le> segments a) (sort_Sort ByLength_Less xs)"
proof (induction xs)
  case Nil
  then show ?case by (simp add: sort_Sort_def)
next
  case (Cons x xs)
  then show ?case
    using sorted_insert_by [of "sort_Sort ByLength_Less xs" x] by (simp add: sort_Sort_def)
qed

lemma length_strings_Split:
  "length (strings_Split sep s) = Suc (length (filter (\<lambda>c. c = sep) s))"
  by (induction s) (auto split: list.splits)

lemma Path_mkDiffNode: "Path \<circ> mkDiffNode = fst"
  by (auto simp: mkDiffNode_def)

text \<open>
  C6. For every pair of indices (maps, so with distinct keys), \<^verbatim>\<open>compareIndex\<close>
  returns a Diff in which \<open>Added\<close> holds exactly the paths present remotely and absent
  locally (with the remote hash), \<open>Conflicted\<close> exactly the paths present in both with
  differing hashes (with the remote hash), \<open>DeletedCandidates\<close> exactly the paths
  present locally and absent remotely (with the local hash), each path once and the
  root entry \<open>/\<close> in none of them; \<open>DeletedCandidates\<close> is ordered by descending
  number of path segments, the number of \<open>/\<close> in the path plus one.
\<close>

theorem compareIndex_diff:
  assumes "distinct (map fst lidx)" and "distinct (map fst ridx)"
  shows "\<exists>d. compareIndex lidx ridx = Inr d
     \<and> set (Added d) = {\<lparr>Path = p, NodeHash = h\<rparr> | p h.
          map_of ridx p = Some h \<and> map_of lidx p = None \<and> p \<noteq> ''/''}
     \<and> set (Conflicted d) = {\<lparr>Path = p, NodeHash = h\<rparr> | p h.
          map_of ridx p = Some h \<and> (\<exists>lh. map_of lidx p = Some lh \<and> h \<noteq> lh) \<and> p \<noteq> ''/''}
     \<and> set (DeletedCandidates d) = {\<lparr>Path = p, NodeHash = h\<rparr> | p h.
          map_of lidx p = Some h \<and> map_of ridx p = None \<and> p \<noteq> ''/''}
     \<and> distinct (map Path (Added d)) \<and> distinct (map Path (Conflicted d))
     \<and> distinct (map Path (DeletedCandidates d))
     \<and> sorted_wrt (\<lambda>a b. segments b \<le> segments a) (DeletedCandidates d)
     \<and> (\<forall>n \<in> set (DeletedCandidates d).
           segments n = Suc (length (filter (\<lambda>c. c = CHR ''/'') (Path n))))"
proof -
  let ?r = "map_delete ''/'' ridx" and ?l = "map_delete ''/'' lidx"
  let ?A = "map mkDiffNode (filter (\<lambda>e. map_of ?l (fst e) = None) ?r)"
  let ?C = "map mkDiffNode
      (filter (\<lambda>e. \<exists>lref. map_of ?l (fst e) = Some lref \<and> snd e \<noteq> lref) ?r)"
  let ?D = "map mkDiffNode (filter (\<lambda>e. map_of ?r (fst e) = None) ?l)"
  let ?d = "\<lparr>Added = ?A, Conflicted = ?C, DeletedCandidates = sort_Sort ByLength_Less ?D\<rparr>"
  have dl: "distinct (map fst ?l)" and dr: "distinct (map fst ?r)"
    using assms by (simp_all add: distinct_map_delete)
  have c: "compareIndex lidx ridx = Inr ?d"
    by (simp add: compareIndex_def Let_def compare_remote_eq compare_local_eq)
  have mem_r: "(p, h) \<in> set ?r \<longleftrightarrow> map_of ridx p = Some h \<and> p \<noteq> ''/''" for p h
    using assms(2) by (auto simp: set_map_delete)
  have mem_l: "(p, h) \<in> set ?l \<longleftrightarrow> map_of lidx p = Some h \<and> p \<noteq> ''/''" for p h
    using assms(1) by (auto simp: set_map_delete)
  have a: "set ?A = {\<lparr>Path = p, NodeHash = h\<rparr> | p h.
          map_of ridx p = Some h \<and> map_of lidx p = None \<and> p \<noteq> ''/''}"
    using mem_r by (auto simp: mkDiffNode_def map_of_map_delete image_iff)
  have cf: "set ?C = {\<lparr>Path = p, NodeHash = h\<rparr> | p h.
          map_of ridx p = Some h \<and> (\<exists>lh. map_of lidx p = Some lh \<and> h \<noteq> lh) \<and> p \<noteq> ''/''}"
    using mem_r by (auto simp: mkDiffNode_def map_of_map_delete image_iff)
  have dc: "set ?D = {\<lparr>Path = p, NodeHash = h\<rparr> | p h.
          map_of lidx p = Some h \<and> map_of ridx p = None \<and> p \<noteq> ''/''}"
    using mem_l by (auto simp: mkDiffNode_def map_of_map_delete image_iff)
  have da: "distinct (map Path ?A)" and dcf: "distinct (map Path ?C)"
    using dr by (simp_all add: Path_mkDiffNode distinct_map_filter)
  have "distinct (map Path ?D)"
    using dl by (simp add: Path_mkDiffNode distinct_map_filter)
  moreover have "mset (map Path (sort_Sort ByLength_Less ?D)) = mset (map Path ?D)"
    by (simp only: mset_map mset_sort_Sort)
  ultimately have dd: "distinct (map Path (sort_Sort ByLength_Less ?D))"
    by (metis mset_eq_imp_distinct_iff)
  have sd: "set (sort_Sort ByLength_Less ?D) = set ?D"
    by (metis mset_sort_Sort set_mset_mset)
  show ?thesis
    using c a cf dc da dcf dd sd sorted_sort_Sort [of ?D]
    by (simp add: segments_def length_strings_Split)
qed

text \<open>An instance: one added, one conflicting and three deleted paths.\<close>

theorem compareIndex_diff_witness:
  "distinct (map fst idx_local) \<and> distinct (map fst idx_remote)
   \<and> (\<exists>d. compareIndex idx_local idx_remote = Inr d
        \<and> Added d = [\<lparr>Path = ''/n'', NodeHash = ''h4''\<rparr>]
        \<and> Conflicted d = [\<lparr>Path = ''/a'', NodeHash = ''h9''\<rparr>]
        \<and> DeletedCandidates d =
            [\<lparr>Path = ''/b/c/d'', NodeHash = ''h2''\<rparr>, \<lparr>Path = ''/b/c'', NodeHash = ''h5''\<rparr>,
             \<lparr>Path = ''/b'', NodeHash = ''h3''\<rparr>]
        \<and> sorted_wrt (\<lambda>a b. segments b \<le> segments a) (DeletedCandidates d))"
proof -
  have l: "distinct (map fst idx_local)" and r: "distinct (map fst idx_remote)"
    by (simp_all add: idx_local_def idx_remote_def)
  have e: "compareIndex idx_local idx_remote =
      Inr \<lparr>Added = [\<lparr>Path = ''/n'', NodeHash = ''h4''\<rparr>],
           Conflicted = [\<lparr>Path = ''/a'', NodeHash = ''h9''\<rparr>],
           DeletedCandidates =
            [\<lparr>Path = ''/b/c/d'', NodeHash = ''h2''\<rparr>, \<lparr>Path = ''/b/c'', NodeHash = ''h5''\<rparr>,
             \<lparr>Path = ''/b'', NodeHash = ''h3''\<rparr>]\<rparr>"
    by code_simp
  from compareIndex_diff [OF l r] obtain d where
    d: "compareIndex idx_local idx_remote = Inr d" and
    s: "sorted_wrt (\<lambda>a b. segments b \<le> segments a) (DeletedCandidates d)"
    by (elim exE conjE)
  from d e have "d = \<lparr>Added = [\<lparr>Path = ''/n'', NodeHash = ''h4''\<rparr>],
           Conflicted = [\<lparr>Path = ''/a'', NodeHash = ''h9''\<rparr>],
           DeletedCandidates =
            [\<lparr>Path = ''/b/c/d'', NodeHash = ''h2''\<rparr>, \<lparr>Path = ''/b/c'', NodeHash = ''h5''\<rparr>,
             \<lparr>Path = ''/b'', NodeHash = ''h3''\<rparr>]\<rparr>"
    by simp
  with d s have "compareIndex idx_local idx_remote = Inr d
        \<and> Added d = [\<lparr>Path = ''/n'', NodeHash = ''h4''\<rparr>]
        \<and> Conflicted d = [\<lparr>Path = ''/a'', NodeHash = ''h9''\<rparr>]
        \<and> DeletedCandidates d =
            [\<lparr>Path = ''/b/c/d'', NodeHash = ''h2''\<rparr>, \<lparr>Path = ''/b/c'', NodeHash = ''h5''\<rparr>,
             \<lparr>Path = ''/b'', NodeHash = ''h3''\<rparr>]
        \<and> sorted_wrt (\<lambda>a b. segments b \<le> segments a) (DeletedCandidates d)"
    by simp
  then show ?thesis
    using l r by blast
qed

subsection \<open>\<^verbatim>\<open>Dir.Save\<close> twice\<close>

text \<open>A blob that was just put, and every blob found before, is found afterwards.\<close>

lemma Cache_Put_Stat:
  assumes "Cache_Put c h b = (Inr u, c')" and "Cache_Stat c h = Inr False"
  shows "Cache_Stat c' h = Inr True"
    and "Cache_Stat c h' = Inr True \<Longrightarrow> Cache_Stat c' h' = Inr True"
  using assms
  by (auto simp: Cache_Put_def Cache_Stat_def tier_Put_def tier_Stat_def
      split: option.splits sum.splits if_splits)

text \<open>
  What a successful pass over one directory (lines 1962 to 2001) leaves, and the same
  pass on a state that kept the directory, its children and the blob.
\<close>

lemma Save_node_Inr:
  assumes "Save_node x now fs d = (Inr dir', fs')"
  obtains dir m mjs c where
    "dir_at fs d = Some dir" "Save_meta x now fs dir = Inr (m, mjs)" "dir' = dir\<lparr>dmeta := m\<rparr>"
    "fs' = (set_node fs d (DirNode dir'))\<lparr>fs_bs := c\<rparr>"
    "Cache_Stat c (Hash m) = Inr True"
    "\<And>h. Cache_Stat (fs_bs fs) h = Inr True \<Longrightarrow> Cache_Stat c h = Inr True"
proof -
  from assms obtain dir where d: "dir_at fs d = Some dir"
    by (auto simp: Save_node_def split: option.splits)
  from assms d obtain m mjs where m: "Save_meta x now fs dir = Inr (m, mjs)"
    by (auto simp: Save_node_def split: sum.splits)
  let ?fs1 = "set_node fs d (DirNode (dir\<lparr>dmeta := m\<rparr>))"
  have b: "fs_bs ?fs1 = fs_bs fs"
    by (simp add: set_node_def)
  from assms d m obtain ex where s: "Cache_Stat (fs_bs fs) (Hash m) = Inr ex"
    by (auto simp: Save_node_def Let_def b split: sum.splits)
  show ?thesis
  proof (cases ex)
    case True
    with assms d m s have "dir' = dir\<lparr>dmeta := m\<rparr>" "fs' = ?fs1"
      by (auto simp: Save_node_def Let_def b)
    then have "fs' = (set_node fs d (DirNode dir'))\<lparr>fs_bs := fs_bs fs\<rparr>"
      by (simp add: set_node_def)
    with d m \<open>dir' = dir\<lparr>dmeta := m\<rparr>\<close> s True show ?thesis
      by (intro that [of dir m mjs "fs_bs fs"]) auto
  next
    case False
    with assms d m s obtain c u where
      p: "Cache_Put (fs_bs fs) (Hash m) mjs = (Inr u, c)"
      and r: "dir' = dir\<lparr>dmeta := m\<rparr>" "fs' = ?fs1\<lparr>fs_bs := c\<rparr>"
      by (auto simp: Save_node_def Let_def b split: prod.splits sum.splits)
    from s False have s': "Cache_Stat (fs_bs fs) (Hash m) = Inr False" by simp
    show ?thesis
      using d m r Cache_Put_Stat [OF p s']
      by (intro that [of dir m mjs c]) auto
  qed
qed

lemma child_hashes_cong:
  assumes "\<forall>kc \<in> set cs. heap fs1 ! snd kc = heap fs ! snd kc"
  shows "child_hashes fs1 cs = child_hashes fs cs"
  using assms by (simp add: child_hashes_def)

lemma Save_meta_again:
  assumes "Save_meta x now fs dir = Inr (m, mjs)"
    and "\<forall>t. Format_RFC3339 x t \<noteq> ''''"
    and "length (heap fs1) = length (heap fs)"
    and "\<forall>cs. Children dir = Some cs \<longrightarrow> (\<forall>kc \<in> set cs. heap fs1 ! snd kc = heap fs ! snd kc)"
  shows "Save_meta x now' fs1 (dir\<lparr>dmeta := m\<rparr>) = Inr (m, mjs)"
proof -
  let ?cs = "case Children dir of None \<Rightarrow> [] | Some cs \<Rightarrow> cs"
  have ch: "child_hashes fs1 ?cs = child_hashes fs ?cs"
    using assms(4) by (intro child_hashes_cong) (cases "Children dir"; force)
  from assms(1) have v: "\<forall>kc \<in> set ?cs. snd kc < length (heap fs)"
    by (auto simp: Save_meta_def add_child_refs_eq split: if_splits)
  from assms(1) v have nm: "Name m = Name (dmeta dir)"
    and mt: "ModTime m = (if ModTime (dmeta dir) \<noteq> '''' then ModTime (dmeta dir)
                          else Format_RFC3339 x now)"
    by (auto simp: Save_meta_def add_child_refs_eq split: if_splits)
  from mt assms(2) have ne: "ModTime m \<noteq> ''''"
    by auto
  from mt ne have mt': "(if ModTime (dmeta dir) \<noteq> '''' then ModTime (dmeta dir)
                          else Format_RFC3339 x now) = ModTime m"
    by simp
  show ?thesis
    using assms(1) v ne
    by (simp add: Save_meta_def add_child_refs_eq ch assms(3) nm mt' split: if_splits)
qed

lemma Save_node_again:
  assumes "dir_at fs1 d = Some dir'"
    and "Save_meta x now' fs1 dir' = Inr (dmeta dir', mjs)"
    and "Cache_Stat (fs_bs fs1) (Hash (dmeta dir')) = Inr True"
  shows "Save_node x now' fs1 d = (Inr dir', fs1)"
proof -
  from assms(1) have "d < length (heap fs1)" "heap fs1 ! d = DirNode dir'"
    by (auto simp: dir_at_def deref_def split: if_splits option.splits Node.splits)
  then have "set_node fs1 d (DirNode dir') = fs1"
    by (simp add: set_node_def list_update_same_conv)
  with assms show ?thesis
    by (simp add: Save_node_def Let_def)
qed

text \<open>
  The root case run again on its own result commits one more record, with the same data
  and the next version, and changes nothing else.
\<close>

lemma vkv_Put_auto:
  assumes "vkv_Put db key ref data (-1) = Inr (kv, db')"
  shows "kv = \<lparr>kv_Hash = ref, kv_Data = data, kv_Version = latest_version (entries db key) + 1\<rparr>"
    and "db' = db\<lparr>entries := (entries db)(key := entries db key @ [kv])\<rparr>"
    and "kv_fault db = None"
  using assms by (auto simp: vkv_Put_def Let_def split: option.splits)

lemma vkv_Put_auto_again:
  assumes "vkv_Put db key ref data (-1) = Inr (kv, db')"
  shows "vkv_Put db' key ref data (-1) =
           Inr (kv\<lparr>kv_Version := kv_Version kv + 1\<rparr>,
                db'\<lparr>entries := (entries db')(key := entries db' key
                        @ [kv\<lparr>kv_Version := kv_Version kv + 1\<rparr>])\<rparr>)"
  using assms by (auto simp: vkv_Put_def Let_def latest_version_def split: option.splits)

lemma nth_update_copy:
  "d < length xs \<Longrightarrow> xs[r := xs ! d] ! d = xs ! d"
  by (cases "r = d") auto

lemma Save_root_again:
  assumes "Save_root x fs d h = (Inr (), fs1)"
  shows "\<exists>kv. entries (lkv fs1) (localRootKey (name fs1))
              = entries (lkv fs) (localRootKey (name fs)) @ [kv]
     \<and> local fs1 = Some \<lparr>mnt_immutable = False, mnt_node = Some d,
          mnt_root = Some \<lparr>Ref = h, Version = kv_Version kv, Comment = ''''\<rparr>\<rparr>
     \<and> Save_root x fs1 d h =
         (Inr (),
          fs1\<lparr>lkv := (lkv fs1)\<lparr>entries := (entries (lkv fs1))(localRootKey (name fs1) :=
                    entries (lkv fs1) (localRootKey (name fs1))
                    @ [kv\<lparr>kv_Version := kv_Version kv + 1\<rparr>])\<rparr>,
              local := Some \<lparr>mnt_immutable = False, mnt_node = Some d,
                mnt_root = Some \<lparr>Ref = h, Version = kv_Version kv + 1, Comment = ''''\<rparr>\<rparr>\<rparr>)"
proof -
  from assms obtain js where
    js: "json_Marshal x \<lparr>Ref = h, Version = 0, Comment = ''''\<rparr> = Inr js"
    by (auto simp: Save_root_def split: sum.splits)
  from assms js obtain kv db where
    p: "vkv_Put (lkv fs) (localRootKey (name fs)) '''' js (-1) = Inr (kv, db)"
    by (auto simp: Save_root_def split: sum.splits)
  let ?m = "\<lparr>mnt_immutable = False, mnt_node = Some d,
             mnt_root = Some \<lparr>Ref = h, Version = kv_Version kv, Comment = ''''\<rparr>\<rparr>"
  let ?f = "fs\<lparr>lkv := db, local := Some ?m\<rparr>"
  have f1: "fs1 = (case (root ?f, deref ?f d) of
                     (Some r, Some node) \<Rightarrow> set_node ?f r node | _ \<Rightarrow> ?f)"
    using assms js p by (auto simp: Save_root_def Let_def split: option.splits)
  have fr: "lkv fs1 = db" "local fs1 = Some ?m" "name fs1 = name fs" "root fs1 = root fs"
    "length (heap fs1) = length (heap fs)"
    by (auto simp: f1 set_node_def split: option.splits)
  have cp: "(heap fs1)[r := node] = heap fs1" if "root fs1 = Some r" "deref fs1 d = Some node"
    for r node
    using that
    by (auto simp: f1 set_node_def deref_def nth_update_copy list_update_same_conv
        split: option.splits if_splits)
  have dr: "deref (fs1\<lparr>lkv := l, local := m\<rparr>) d = deref fs1 d" for l m
    by (simp add: deref_def)
  have e: "entries (lkv fs1) (localRootKey (name fs1))
      = entries (lkv fs) (localRootKey (name fs)) @ [kv]"
    using vkv_Put_auto(2) [OF p] by (simp add: fr)
  have s: "Save_root x fs1 d h =
         (Inr (),
          fs1\<lparr>lkv := (lkv fs1)\<lparr>entries := (entries (lkv fs1))(localRootKey (name fs1) :=
                    entries (lkv fs1) (localRootKey (name fs1))
                    @ [kv\<lparr>kv_Version := kv_Version kv + 1\<rparr>])\<rparr>,
              local := Some \<lparr>mnt_immutable = False, mnt_node = Some d,
                mnt_root = Some \<lparr>Ref = h, Version = kv_Version kv + 1, Comment = ''''\<rparr>\<rparr>\<rparr>)"
  proof (cases "root fs1")
    case None
    then show ?thesis
      by (simp add: Save_root_def js fr(1,3) vkv_Put_auto_again [OF p] Let_def)
  next
    case r: (Some r)
    show ?thesis
    proof (cases "deref fs1 d")
      case None
      with r show ?thesis
        by (simp add: Save_root_def js fr(1,3) vkv_Put_auto_again [OF p] Let_def dr)
    next
      case (Some node)
      with r cp [OF r Some] show ?thesis
        by (simp add: Save_root_def js fr(1,3) vkv_Put_auto_again [OF p] Let_def dr
            set_node_def)
    qed
  qed
  from e fr(2) s show ?thesis
    by blast
qed

lemma Save_root_frame:
  assumes "Save_root x fs d h = (Inr (), fs1)"
  shows "length (heap fs1) = length (heap fs)" and "fs_bs fs1 = fs_bs fs"
    and "root fs \<noteq> Some a \<Longrightarrow> heap fs1 ! a = heap fs ! a"
    and "d < length (heap fs) \<Longrightarrow> heap fs1 ! d = heap fs ! d"
  using assms
  by (auto simp: Save_root_def Let_def set_node_def deref_def nth_update_copy
      split: sum.splits option.splits if_splits)

lemma dir_at_set_node:
  "dir_at ((set_node fs d (DirNode dir'))\<lparr>fs_bs := c\<rparr>) a =
     (if a = d \<and> d < length (heap fs) then Some dir' else dir_at fs a)"
  by (auto simp: dir_at_def deref_def set_node_def)

lemma tree_levels_Save_node:
  assumes "tree_levels lvl fs" and "dir_at fs d = Some dir"
  shows "tree_levels lvl ((set_node fs d (DirNode (dir\<lparr>dmeta := m\<rparr>)))\<lparr>fs_bs := c\<rparr>)"
  using assms unfolding tree_levels_def dir_at_set_node
  by (auto simp: set_node_def)

text \<open>
  The walk to the root, by induction on the bound: nodes below the directory are left
  alone, and a second walk from the same directory reaches the same root case without
  changing anything on its way.
\<close>

lemma Save_rec_again:
  assumes "Save_rec n x now fs d = (Inr (), fs1)" and "tree_levels lvl fs"
    and "\<forall>t. Format_RFC3339 x t \<noteq> ''''"
  shows "length (heap fs1) = length (heap fs)
     \<and> (\<forall>a. lvl d < lvl a \<longrightarrow> heap fs1 ! a = heap fs ! a)
     \<and> (\<forall>h. Cache_Stat (fs_bs fs) h = Inr True \<longrightarrow> Cache_Stat (fs_bs fs1) h = Inr True)
     \<and> (\<exists>top h fsk. Save_root x fsk top h = (Inr (), fs1)
           \<and> (\<forall>now'. Save_rec n x now' fs1 d = Save_root x fs1 top h))"
  using assms
proof (induction n arbitrary: fs d)
  case 0
  then show ?case by simp
next
  case (Suc n)
  from Suc.prems(1) obtain dir' fs' where
    sn: "Save_node x now fs d = (Inr dir', fs')"
    by (auto split: prod.splits sum.splits)
  from Save_node_Inr [OF sn] obtain dir m mjs c where
    d: "dir_at fs d = Some dir" and m: "Save_meta x now fs dir = Inr (m, mjs)"
    and dir': "dir' = dir\<lparr>dmeta := m\<rparr>"
    and fs': "fs' = (set_node fs d (DirNode dir'))\<lparr>fs_bs := c\<rparr>"
    and st: "Cache_Stat c (Hash m) = Inr True"
    and mono: "\<And>h. Cache_Stat (fs_bs fs) h = Inr True \<Longrightarrow> Cache_Stat c h = Inr True"
    by blast
  from d have dl: "d < length (heap fs)"
    by (auto simp: dir_at_def deref_def split: if_splits)
  have len': "length (heap fs') = length (heap fs)"
    by (simp add: fs' set_node_def)
  have bs': "fs_bs fs' = c"
    by (simp add: fs')
  have hd: "heap fs' ! d = DirNode dir'"
    using dl by (simp add: fs' set_node_def)
  have other: "heap fs' ! a = heap fs ! a" if "a \<noteq> d" for a
    using that by (simp add: fs' set_node_def)
  have root': "root fs' = root fs"
    by (simp add: fs' set_node_def)
  have tl': "tree_levels lvl fs'"
    unfolding fs' dir' by (rule tree_levels_Save_node [OF Suc.prems(2) d])
  have deeper: "lvl d < lvl (snd kc)" if "Children dir = Some cs" "kc \<in> set cs" for cs kc
    using Suc.prems(2) d that unfolding tree_levels_def by blast
  have root0: "lvl r = 0" if "root fs = Some r" for r
    using Suc.prems(2) that unfolding tree_levels_def by blast
  have again: "Save_node x now' fs1 d = (Inr dir', fs1)"
    if l1: "length (heap fs1) = length (heap fs)"
      and f1: "\<forall>a. lvl d < lvl a \<longrightarrow> heap fs1 ! a = heap fs ! a"
      and h1: "heap fs1 ! d = DirNode dir'"
      and s1: "Cache_Stat (fs_bs fs1) (Hash m) = Inr True" for now'
  proof -
    have a: "dir_at fs1 d = Some dir'"
      using dl l1 h1 by (simp add: dir_at_def deref_def)
    have c: "\<forall>cs. Children dir = Some cs \<longrightarrow>
        (\<forall>kc \<in> set cs. heap fs1 ! snd kc = heap fs ! snd kc)"
      using f1 deeper by blast
    have b: "Save_meta x now' fs1 dir' = Inr (dmeta dir', mjs)"
      using Save_meta_again [OF m Suc.prems(3) l1 c] by (simp add: dir')
    show ?thesis
      using a b s1 by (intro Save_node_again) (simp_all add: dir')
  qed
  show ?case
  proof (cases "dparent dir")
    case None
    with Suc.prems(1) sn have sr: "Save_root x fs' d (Hash m) = (Inr (), fs1)"
      by (simp add: dir')
    note fr = Save_root_frame [OF sr]
    have l1: "length (heap fs1) = length (heap fs)"
      using fr(1) len' by simp
    have f1: "\<forall>a. lvl d < lvl a \<longrightarrow> heap fs1 ! a = heap fs ! a"
    proof (intro allI impI)
      fix a assume a: "lvl d < lvl a"
      then have "a \<noteq> d" by auto
      moreover from a have "root fs' \<noteq> Some a"
        using root0 [of a] by (auto simp: root')
      ultimately show "heap fs1 ! a = heap fs ! a"
        using fr(3) [of a] other [of a] by simp
    qed
    have h1: "heap fs1 ! d = DirNode dir'"
      using fr(4) dl len' hd by simp
    have s1: "Cache_Stat (fs_bs fs1) (Hash m) = Inr True"
      using st by (simp add: fr(2) bs')
    have mono1: "\<forall>h. Cache_Stat (fs_bs fs) h = Inr True \<longrightarrow> Cache_Stat (fs_bs fs1) h = Inr True"
      using mono by (simp add: fr(2) bs')
    have "Save_rec (Suc n) x now' fs1 d = Save_root x fs1 d (Hash m)" for now'
      using again [OF l1 f1 h1 s1, of now'] None by (simp add: dir')
    with sr l1 f1 mono1 show ?thesis
      by blast
  next
    case (Some p)
    with Suc.prems(1) sn have rec: "Save_rec n x now fs' p = (Inr (), fs1)"
      by (simp add: dir')
    from Suc.IH [OF rec tl' Suc.prems(3)] obtain top h fsk where
      l: "length (heap fs1) = length (heap fs')"
      and f: "\<forall>a. lvl p < lvl a \<longrightarrow> heap fs1 ! a = heap fs' ! a"
      and s: "\<forall>h. Cache_Stat (fs_bs fs') h = Inr True \<longrightarrow> Cache_Stat (fs_bs fs1) h = Inr True"
      and t: "Save_root x fsk top h = (Inr (), fs1)"
      and r: "\<forall>now'. Save_rec n x now' fs1 p = Save_root x fs1 top h"
      by blast
    have pd: "lvl p < lvl d"
      using Suc.prems(2) d Some unfolding tree_levels_def by blast
    have l1: "length (heap fs1) = length (heap fs)"
      using l len' by simp
    have f1: "\<forall>a. lvl d < lvl a \<longrightarrow> heap fs1 ! a = heap fs ! a"
    proof (intro allI impI)
      fix a assume a: "lvl d < lvl a"
      then have "a \<noteq> d" by auto
      moreover from a pd have "lvl p < lvl a" by simp
      ultimately show "heap fs1 ! a = heap fs ! a"
        using f other [of a] by simp
    qed
    have h1: "heap fs1 ! d = DirNode dir'"
      using f pd hd by simp
    have s1: "Cache_Stat (fs_bs fs1) (Hash m) = Inr True"
      using s st by (simp add: bs')
    have mono1: "\<forall>h. Cache_Stat (fs_bs fs) h = Inr True \<longrightarrow> Cache_Stat (fs_bs fs1) h = Inr True"
      using mono s by (simp add: bs')
    have "Save_rec (Suc n) x now' fs1 d = Save_root x fs1 top h" for now'
      using again [OF l1 f1 h1 s1, of now'] Some r by (simp add: dir')
    with t l1 f1 mono1 show ?thesis
      by blast
  qed
qed

text \<open>
  C2. The specification has a second \<^verbatim>\<open>Save\<close> on an unmutated tree append no second version
  entry. \<^verbatim>\<open>Dir.Save\<close> commits to the local WIP track whenever it reaches the root:
  after two calls the track holds two records of the same root hash, versions 1 and 2.
\<close>

theorem Dir_Save_twice_counterexample:
  "fst (Dir_Save plain_ext 0 fs_ab 0) = Inr ()
   \<and> fst (Dir_Save plain_ext 1 (snd (Dir_Save plain_ext 0 fs_ab 0)) 0) = Inr ()
   \<and> entries (lkv (snd (Dir_Save plain_ext 0 fs_ab 0))) ''local:root:fs''
       = [\<lparr>kv_Hash = '''', kv_Data = ''dir//ha,hb,'', kv_Version = 1\<rparr>]
   \<and> entries (lkv (snd (Dir_Save plain_ext 1 (snd (Dir_Save plain_ext 0 fs_ab 0)) 0)))
         ''local:root:fs''
       = [\<lparr>kv_Hash = '''', kv_Data = ''dir//ha,hb,'', kv_Version = 1\<rparr>,
          \<lparr>kv_Hash = '''', kv_Data = ''dir//ha,hb,'', kv_Version = 2\<rparr>]"
  by (simp add: test_defs save_defs)

text \<open>
  C2, as amended. On a tree (levels as above), with a time format that is never empty:
  when \<^verbatim>\<open>Dir.Save\<close> has returned successfully, calling it again on the same directory
  succeeds, changes no node (so every hash up to the root is the same) and writes no
  blob to the Content Store, and the local Mount keeps its node and root hash; but it
  appends to the local WIP track one more record with the same data and the next
  version, which becomes the version of the local Mount. The children are iterated in
  the same order in both calls.
\<close>

theorem Dir_Save_twice:
  assumes "Dir_Save x now fs d = (Inr (), fs1)" and "tree_levels lvl fs"
    and "\<forall>t. Format_RFC3339 x t \<noteq> ''''"
  shows "\<exists>fs2 top h kv.
      Dir_Save x now' fs1 d = (Inr (), fs2)
      \<and> heap fs2 = heap fs1 \<and> fs_bs fs2 = fs_bs fs1 \<and> root fs2 = root fs1
      \<and> local fs1 = Some \<lparr>mnt_immutable = False, mnt_node = Some top,
            mnt_root = Some \<lparr>Ref = h, Version = kv_Version kv, Comment = ''''\<rparr>\<rparr>
      \<and> local fs2 = Some \<lparr>mnt_immutable = False, mnt_node = Some top,
            mnt_root = Some \<lparr>Ref = h, Version = kv_Version kv + 1, Comment = ''''\<rparr>\<rparr>
      \<and> entries (lkv fs1) (localRootKey (name fs1)) \<noteq> []
      \<and> last (entries (lkv fs1) (localRootKey (name fs1))) = kv
      \<and> entries (lkv fs2) (localRootKey (name fs1))
          = entries (lkv fs1) (localRootKey (name fs1)) @ [kv\<lparr>kv_Version := kv_Version kv + 1\<rparr>]"
proof -
  from assms(1) have r: "Save_rec (Suc (length (heap fs))) x now fs d = (Inr (), fs1)"
    by (simp add: Dir_Save_def)
  from Save_rec_again [OF r assms(2,3)] obtain top h fsk where
    l: "length (heap fs1) = length (heap fs)"
    and t: "Save_root x fsk top h = (Inr (), fs1)"
    and a: "\<forall>now'. Save_rec (Suc (length (heap fs))) x now' fs1 d = Save_root x fs1 top h"
    by blast
  from Save_root_again [OF t] obtain kv where
    e: "entries (lkv fs1) (localRootKey (name fs1))
          = entries (lkv fsk) (localRootKey (name fsk)) @ [kv]"
    and lo: "local fs1 = Some \<lparr>mnt_immutable = False, mnt_node = Some top,
          mnt_root = Some \<lparr>Ref = h, Version = kv_Version kv, Comment = ''''\<rparr>\<rparr>"
    and s: "Save_root x fs1 top h =
         (Inr (),
          fs1\<lparr>lkv := (lkv fs1)\<lparr>entries := (entries (lkv fs1))(localRootKey (name fs1) :=
                    entries (lkv fs1) (localRootKey (name fs1))
                    @ [kv\<lparr>kv_Version := kv_Version kv + 1\<rparr>])\<rparr>,
              local := Some \<lparr>mnt_immutable = False, mnt_node = Some top,
                mnt_root = Some \<lparr>Ref = h, Version = kv_Version kv + 1, Comment = ''''\<rparr>\<rparr>\<rparr>)"
    by blast
  let ?fs2 = "fs1\<lparr>lkv := (lkv fs1)\<lparr>entries := (entries (lkv fs1))(localRootKey (name fs1) :=
                    entries (lkv fs1) (localRootKey (name fs1))
                    @ [kv\<lparr>kv_Version := kv_Version kv + 1\<rparr>])\<rparr>,
              local := Some \<lparr>mnt_immutable = False, mnt_node = Some top,
                mnt_root = Some \<lparr>Ref = h, Version = kv_Version kv + 1, Comment = ''''\<rparr>\<rparr>\<rparr>"
  have "Dir_Save x now' fs1 d = (Inr (), ?fs2)"
    using a s l by (simp add: Dir_Save_def)
  moreover have "entries (lkv fs1) (localRootKey (name fs1)) \<noteq> []"
    "last (entries (lkv fs1) (localRootKey (name fs1))) = kv"
    by (simp_all add: e)
  ultimately show ?thesis
    using lo by (intro exI [of _ ?fs2] exI [of _ top] exI [of _ h] exI [of _ kv]) simp
qed

text \<open>An instance: the root directory with two files.\<close>

theorem Dir_Save_twice_witness:
  "Dir_Save plain_ext 0 fs_ab 0 = (Inr (), snd (Dir_Save plain_ext 0 fs_ab 0))
   \<and> tree_levels (\<lambda>a. if a = 0 then 0 else 1) fs_ab
   \<and> (\<forall>t. Format_RFC3339 plain_ext t \<noteq> '''')
   \<and> (\<exists>fs2. Dir_Save plain_ext 1 (snd (Dir_Save plain_ext 0 fs_ab 0)) 0 = (Inr (), fs2)
         \<and> heap fs2 = heap (snd (Dir_Save plain_ext 0 fs_ab 0))
         \<and> fs_bs fs2 = fs_bs (snd (Dir_Save plain_ext 0 fs_ab 0)))"
proof -
  have "fst (Dir_Save plain_ext 0 fs_ab 0) = Inr ()"
    by (simp add: test_defs save_defs)
  then have a: "Dir_Save plain_ext 0 fs_ab 0 = (Inr (), snd (Dir_Save plain_ext 0 fs_ab 0))"
    by (metis prod.collapse)
  have b: "tree_levels (\<lambda>a. if a = 0 then 0 else 1) fs_ab"
    by (auto simp: tree_levels_def fs_ab_def fs_of_def root_ab_def file_node_def dir_at_def
        deref_def nth_Cons' split: if_splits)
  have c: "\<forall>t. Format_RFC3339 plain_ext t \<noteq> ''''"
    by (simp add: plain_ext_def)
  from Dir_Save_twice [OF a b c, of 1] a b c show ?thesis
    by blast
qed

subsection \<open>\<^verbatim>\<open>loadRoot\<close>\<close>

text \<open>Unfolding the model of \<^verbatim>\<open>loadRoot\<close>.\<close>

lemmas load_defs = loadRoot_def load_mutation_def kvDataToDir_def vkv_Get_def rootKey_def
  localRootKey_def Cache_Get_def tier_Get_def NewDir_def alloc_def kvVersion_def
  Immutable_def Mount_node_def FS_Mount_def set_root_from_Mount_def

text \<open>
  C8. The specification has every successful return of \<^verbatim>\<open>loadRoot\<close>, outside the OutOfSync
  case, leave one active Mount and the working directory \<open>f.root\<close> set to its node.
  At startup with the local mirror and the remote track at the same version,
  \<^verbatim>\<open>loadRoot\<close> returns successfully with the remote Mount set, whose node is the
  directory at address 0, and leaves \<open>f.root\<close> nil: that branch returns without the
  assignment \<^verbatim>\<open>f.root = f.Mount().node.(*Dir)\<close> its sibling branches make.
\<close>

theorem loadRoot_in_sync_root_unset:
  "local fs_in_sync = None \<and> remote fs_in_sync = None \<and> root fs_in_sync = None
   \<and> fst (loadRoot plain_ext 0 fs_in_sync) = Inr ()
   \<and> local (snd (loadRoot plain_ext 0 fs_in_sync)) = None
   \<and> remote (snd (loadRoot plain_ext 0 fs_in_sync))
       = Some \<lparr>mnt_immutable = False, mnt_node = Some 0,
               mnt_root = Some \<lparr>Ref = ''hr'', Version = 5, Comment = ''''\<rparr>\<rparr>
   \<and> Mount_node (snd (loadRoot plain_ext 0 fs_in_sync)) = Inr (Some 0)
   \<and> root (snd (loadRoot plain_ext 0 fs_in_sync)) = None"
  by (simp add: fs_in_sync_def root_v5_def load_defs test_defs)

text \<open>
  What \<^verbatim>\<open>loadRoot\<close> leaves in general. Loading a mutation and saving a directory
  touch neither \<open>f.remote\<close> nor the pointer \<open>f.root\<close>.
\<close>

lemma kvDataToDir_frame:
  assumes "kvDataToDir x fs data v = (r, fs')"
  shows "local fs' = local fs \<and> remote fs' = remote fs \<and> root fs' = root fs
     \<and> lkv fs' = lkv fs \<and> rkv fs' = rkv fs \<and> name fs' = name fs \<and> immutable fs' = immutable fs"
  using assms
  by (auto simp: kvDataToDir_def NewDir_def alloc_def split: sum.splits prod.splits)

lemma load_mutation_frame:
  assumes "load_mutation x fs nf db key = (r, fs')"
  shows "local fs' = local fs \<and> remote fs' = remote fs \<and> root fs' = root fs
     \<and> lkv fs' = lkv fs \<and> rkv fs' = rkv fs \<and> name fs' = name fs \<and> immutable fs' = immutable fs"
proof (cases "vkv_Get nf db key")
  case (Inl e)
  with assms show ?thesis
    by (auto simp: load_mutation_def split: if_splits)
next
  case (Inr kv)
  obtain r1 fs1 where k: "kvDataToDir x fs (kv_Data kv) (kv_Version kv) = (r1, fs1)"
    by (cases "kvDataToDir x fs (kv_Data kv) (kv_Version kv)")
  with assms Inr have "fs' = fs1"
    by (auto simp: load_mutation_def split: sum.splits prod.splits)
  with kvDataToDir_frame [OF k] show ?thesis
    by simp
qed

lemma Save_node_frame:
  assumes "Save_node x now fs d = (r, fs')"
  shows "remote fs' = remote fs \<and> root fs' = root fs"
  using assms
  by (auto simp: Save_node_def Let_def set_node_def split: option.splits sum.splits prod.splits
      if_splits)

lemma Save_root_frame2:
  assumes "Save_root x fs d h = (r, fs')"
  shows "remote fs' = remote fs \<and> root fs' = root fs"
  using assms
  by (auto simp: Save_root_def Let_def set_node_def split: option.splits sum.splits prod.splits)

lemma Save_rec_frame:
  assumes "Save_rec n x now fs d = (r, fs')"
  shows "remote fs' = remote fs \<and> root fs' = root fs"
  using assms
proof (induction n arbitrary: fs d)
  case 0
  then show ?case by simp
next
  case (Suc n)
  obtain r1 fs1 where sn: "Save_node x now fs d = (r1, fs1)"
    by (cases "Save_node x now fs d")
  note f1 = Save_node_frame [OF sn]
  show ?case
  proof (cases r1)
    case (Inl e)
    with Suc.prems sn f1 show ?thesis by simp
  next
    case (Inr dir)
    show ?thesis
    proof (cases "dparent dir")
      case None
      with Suc.prems sn Inr have "Save_root x fs1 d (Hash (dmeta dir)) = (r, fs')"
        by simp
      from Save_root_frame2 [OF this] f1 show ?thesis by simp
    next
      case (Some p)
      with Suc.prems sn Inr have "Save_rec n x now fs1 p = (r, fs')"
        by simp
      from Suc.IH [OF this] f1 show ?thesis by simp
    qed
  qed
qed

lemma Dir_Save_frame:
  assumes "Dir_Save x now fs d = (r, fs')"
  shows "remote fs' = remote fs \<and> root fs' = root fs"
  using assms unfolding Dir_Save_def by (rule Save_rec_frame)

lemma set_root_from_Mount_Inr:
  assumes "set_root_from_Mount fs = (Inr (), fs')"
  shows "local fs' = local fs \<and> remote fs' = remote fs \<and> Mount_node fs' = Inr (root fs')"
  using assms
  by (auto simp: set_root_from_Mount_def Mount_node_def split: sum.splits)

lemma fresh_root_Inr:
  assumes "fresh_root x now fs = (Inr (), fs')"
  shows "local fs' \<noteq> None \<and> remote fs' = remote fs \<and> Mount_node fs' = Inr (root fs')"
proof -
  obtain r1 fs1 where i: "initRoot x now fs = (r1, fs1)"
    by (cases "initRoot x now fs")
  let ?fsa = "fs\<lparr>heap := heap fs @ [DirNode \<lparr>dmeta = zero_Meta, dparent = None,
                                               Children = Some []\<rparr>]\<rparr>"
  obtain r2 fs2 where s: "Dir_Save x now ?fsa (length (heap fs)) = (r2, fs2)"
    by (cases "Dir_Save x now ?fsa (length (heap fs))")
  with i have "fs1 = fs2"
    by (auto simp: initRoot_def alloc_def split: sum.splits)
  with Dir_Save_frame [OF s] have "remote fs1 = remote fs"
    by simp
  moreover from assms i obtain fs2 where
    "set_root_from_Mount fs2 = (Inr (), fs')" "remote fs2 = remote fs1" "local fs2 \<noteq> None"
    by (auto simp: fresh_root_def split: sum.splits option.splits prod.splits)
  ultimately show ?thesis
    using set_root_from_Mount_Inr by fastforce
qed

text \<open>
  Started without mounts, a successful \<^verbatim>\<open>loadRoot\<close> leaves exactly one of the two
  mounts set; \<open>f.root\<close> is the node of the active mount, or else (the in-sync branch)
  no local mount is set and \<open>f.root\<close> is what it was.
\<close>

lemma loadRoot_success:
  assumes "local fs0 = None" and "remote fs0 = None" and "loadRoot x now fs0 = (Inr (), fs')"
  shows "((local fs' \<noteq> None \<and> remote fs' = None) \<or> (local fs' = None \<and> remote fs' \<noteq> None))
       \<and> (Mount_node fs' = Inr (root fs') \<or> (local fs' = None \<and> root fs' = root fs0))"
proof -
  obtain r1 fs1 where l1: "load_mutation x fs0 ErrNotFound (lkv fs0) (rootKey (name fs0)) = (r1, fs1)"
    by (cases "load_mutation x fs0 ErrNotFound (lkv fs0) (rootKey (name fs0))")
  obtain r2 fs2 where l2: "load_mutation x fs1 ErrNotFound (lkv fs1) (localRootKey (name fs1)) = (r2, fs2)"
    by (cases "load_mutation x fs1 ErrNotFound (lkv fs1) (localRootKey (name fs1))")
  obtain r3 fs where l3: "load_mutation x fs2 ErrKeyNotFound (rkv fs2) (rootKey (name fs2)) = (r3, fs)"
    by (cases "load_mutation x fs2 ErrKeyNotFound (rkv fs2) (rootKey (name fs2))")
  from assms(3) l1 obtain loc where r1: "r1 = Inr loc"
    by (cases r1) (auto simp: loadRoot_def)
  from assms(3) l1 l2 r1 obtain wip where r2: "r2 = Inr wip"
    by (cases r2) (auto simp: loadRoot_def)
  from assms(3) l1 l2 l3 r1 r2 obtain rem where r3: "r3 = Inr rem"
    by (cases r3) (auto simp: loadRoot_def)
  have fr: "local fs = None" "remote fs = None" "root fs = root fs0"
    using load_mutation_frame [OF l1] load_mutation_frame [OF l2] load_mutation_frame [OF l3]
      assms(1,2) by simp_all
  show ?thesis
    using assms(3) fr
    by (auto simp: loadRoot_def l1 r1 l2 r2 l3 r3
        split: if_splits option.splits sum.splits prod.splits
        dest!: set_root_from_Mount_Inr fresh_root_Inr)
qed

subsection \<open>The merge of \<^verbatim>\<open>Pull\<close>\<close>

text \<open>
  C7. The specification has, for every conflicted path, the remote node materialized at
  \<open>path + ".conflicted"\<close> in the merged tree. \<^verbatim>\<open>createNode\<close> enters a segment that
  already exists, also the last one. With \<open>/x\<close> in conflict (local \<open>h1\<close>, remote
  \<open>h2\<close>) and a local directory \<open>/x.conflicted\<close>, \<^verbatim>\<open>Pull\<close> returns successfully and
  the tree is as before: \<open>/x.conflicted\<close> is still the local directory and no node has
  the hash \<open>h2\<close> (the fourth node is the remote root \<^verbatim>\<open>Pull\<close> decoded). When
  \<open>/x.conflicted\<close> is a local file, the type assertion \<^verbatim>\<open>child.(*Dir)\<close> panics.
\<close>

theorem Pull_conflict_name_taken:
  "fst (Pull 5 plain_ext 9 fs_conflict) = Inr ()
   \<and> children_of (snd (Pull 5 plain_ext 9 fs_conflict)) 0 = [(''x'', 1), (''x.conflicted'', 2)]
   \<and> map (\<lambda>n. (node_IsDir n, Name (node_Meta n), Hash (node_Meta n)))
        (heap (snd (Pull 5 plain_ext 9 fs_conflict)))
       = [(True, '''', ''hroot''), (False, ''x'', ''h1''), (True, ''x.conflicted'', ''hd''),
          (True, '''', ''hr5'')]
   \<and> fst (Pull 5 plain_ext 9 fs_conflict_file) = Inl (Panic ''interface conversion'')"
  by code_simp

text \<open>
  Without the local \<open>/x.conflicted\<close> the merge does what the specification says: \<open>/x\<close> keeps
  the local file and \<open>/x.conflicted\<close> is the remote node.
\<close>

lemma Pull_conflict_both_copies:
  "fst (Pull 5 plain_ext 9 fs_conflict_free) = Inr ()
   \<and> children_of (snd (Pull 5 plain_ext 9 fs_conflict_free)) 0
       = [(''x'', 1), (''x.conflicted'', 3)]
   \<and> map (\<lambda>n. (node_IsDir n, Name (node_Meta n), Hash (node_Meta n)))
        (heap (snd (Pull 5 plain_ext 9 fs_conflict_free)))
       = [(True, '''', ''dir//h1,h2,''), (False, ''x'', ''h1''), (True, '''', ''hr5''),
          (False, ''x.conflicted'', ''h2'')]"
  by code_simp

subsection \<open>\<^verbatim>\<open>Push\<close> when the local Mount is not active\<close>

text \<open>
  C5. The specification has \<^verbatim>\<open>Push\<close> return success, as a no-op, whenever the active Mount is
  not the local one, also when no local Mount exists. In the state \<^verbatim>\<open>loadRoot\<close> leaves
  when it finds the filesystem in sync (the remote Mount only), the guard of \<^verbatim>\<open>Push\<close>
  reads \<open>f.local.root.Ref\<close> through the nil \<open>f.local\<close> and panics.
\<close>

theorem Push_without_local_mount:
  "local fs_remote_only = None
   \<and> remote fs_remote_only
       = Some \<lparr>mnt_immutable = False, mnt_node = Some 0,
               mnt_root = Some \<lparr>Ref = ''hr'', Version = 5, Comment = ''''\<rparr>\<rparr>
   \<and> FS_Mount (local fs_remote_only) (remote fs_remote_only) = Inr (remote fs_remote_only)
   \<and> fst (Push 5 plain_ext fs_remote_only None) = Inl (Panic ''nil pointer dereference'')"
  by code_simp

text \<open>
  In general: without a local Mount \<^verbatim>\<open>Push\<close> panics; with a local Mount and an
  active mount of another root hash it returns success and changes nothing. The guard
  compares root hashes, not mounts: with the remote Mount active and of the same root
  hash as the local one, \<^verbatim>\<open>Push\<close> goes past the guard to the upload and the
  commit to the remote store, which in the instance below answers with a version
  conflict.
\<close>

lemma Push_no_local_panics:
  assumes "local fs = None"
  shows "Push n x fs comment = (Inl (Panic ''nil pointer dereference''), fs)"
  using assms
  by (auto simp: Push_def FS_Mount_def split: option.splits)

lemma Push_other_ref_noop:
  assumes "local fs = Some l" and "mnt_root l = Some lroot"
    and "FS_Mount (local fs) (remote fs) = Inr (Some m)" and "mnt_root m = Some mroot"
    and "Ref mroot \<noteq> Ref lroot"
  shows "Push n x fs comment = (Inr (), fs)"
  using assms by (simp add: Push_def)

lemma Push_remote_active_same_ref:
  "FS_Mount (local fs_same_ref) (remote fs_same_ref) = Inr (remote fs_same_ref)
   \<and> remote fs_same_ref \<noteq> local fs_same_ref
   \<and> fst (Push 5 plain_ext fs_same_ref None) = Inl ErrVersionConflict"
  by code_simp

end
